theory Spec2Isabelle
  imports
    Complex_Main
    "HOL-Library.Char_ord"
    "HOL-Library.List_Lexorder"
    "HOL-Library.Product_Lexorder"
    "HOL-Library.Sublist"
begin

section \<open>Python strings\<close>

text \<open>
  Strings are byte lists. \<open>str_nat\<close> and \<open>str_int\<close> are Python's \<^verbatim>\<open>str\<close> on
  integers, \<open>py_join\<close> is \<^verbatim>\<open>sep.join(xs)\<close>, \<open>py_split\<close> is \<^verbatim>\<open>s.split(sep)\<close>
  for a non-empty separator, \<open>py_lower\<close> and \<open>title_ascii\<close> are \<^verbatim>\<open>str.lower\<close> and
  \<^verbatim>\<open>str.title\<close> on ASCII text.
\<close>

definition digit_char :: "nat \<Rightarrow> char" where
  "digit_char d = char_of (48 + d)"

fun str_nat :: "nat \<Rightarrow> string" where
  "str_nat n = (if n < 10 then [digit_char n] else str_nat (n div 10) @ [digit_char (n mod 10)])"

declare str_nat.simps [simp del]

definition str_int :: "int \<Rightarrow> string" where
  "str_int i = (if i < 0 then CHR ''-'' # str_nat (nat (- i)) else str_nat (nat i))"

fun py_join :: "string \<Rightarrow> string list \<Rightarrow> string" where
  "py_join sep [] = []"
| "py_join sep [x] = x"
| "py_join sep (x # y # ys) = x @ sep @ py_join sep (y # ys)"

function split_from :: "string \<Rightarrow> string \<Rightarrow> string \<Rightarrow> string list" where
  "split_from sep acc [] = [rev acc]"
| "split_from sep acc (c # cs) =
     (if sep \<noteq> [] \<and> prefix sep (c # cs)
      then rev acc # split_from sep [] (drop (length sep) (c # cs))
      else split_from sep (c # acc) cs)"
  by pat_completeness auto
termination
  by (relation "measure (\<lambda>(sep, acc, s). length s)") auto

definition py_split :: "string \<Rightarrow> string \<Rightarrow> string list" where
  "py_split sep s = split_from sep [] s"

definition replace_char :: "char \<Rightarrow> char \<Rightarrow> string \<Rightarrow> string" where
  "replace_char a b s = map (\<lambda>c. if c = a then b else c) s"

definition is_upper :: "char \<Rightarrow> bool" where
  "is_upper c \<longleftrightarrow> CHR ''A'' \<le> c \<and> c \<le> CHR ''Z''"

definition is_lower :: "char \<Rightarrow> bool" where
  "is_lower c \<longleftrightarrow> CHR ''a'' \<le> c \<and> c \<le> CHR ''z''"

definition lower_char :: "char \<Rightarrow> char" where
  "lower_char c = (if is_upper c then char_of (of_char c + (32::nat)) else c)"

definition upper_char :: "char \<Rightarrow> char" where
  "upper_char c = (if is_lower c then char_of (of_char c - (32::nat)) else c)"

definition py_lower :: "string \<Rightarrow> string" where
  "py_lower s = map lower_char s"

fun title_from :: "bool \<Rightarrow> string \<Rightarrow> string" where
  "title_from prev [] = []"
| "title_from prev (c # cs) =
     (if is_lower c then (if prev then c else upper_char c) # title_from True cs
      else if is_upper c then (if prev then lower_char c else c) # title_from True cs
      else c # title_from False cs)"

definition title_ascii :: "string \<Rightarrow> string" where
  "title_ascii s = title_from False s"

definition is_ascii :: "string \<Rightarrow> bool" where
  "is_ascii s \<longleftrightarrow> list_all (\<lambda>c. of_char c < (128::nat)) s"

definition contains :: "string \<Rightarrow> string \<Rightarrow> bool" where
  "contains needle s \<longleftrightarrow> sublist needle s"

section \<open>Data frames\<close>

text \<open>
  A cell of an untyped frame is what \<^verbatim>\<open>pd.read_sql\<close> delivers: a missing value
  (\<^verbatim>\<open>None\<close>, \<^verbatim>\<open>NaN\<close>, \<^verbatim>\<open>NaT\<close>), a text, an integer, a float or a timestamp
  (seconds since the epoch). A float is an exact rational or an infinity; the float
  \<^verbatim>\<open>NaN\<close> is the missing value. A frame has its column names and its rows; a row
  gives the cell under each column name.
\<close>

datatype float64 = Finite rat | PosInf | NegInf

datatype cell = Null | Str string | IntV int | Flt float64 | Ts int

record frame =
  columns :: "string list"
  rows :: "(string \<Rightarrow> cell) list"

datatype error = KeyError string | ValueError | TypeError

text \<open>
  What pandas itself does to a single value: \<open>fmt\<close> is \<^verbatim>\<open>str\<close> of a float or a
  timestamp, \<open>to_ts\<close> is the parser of \<^verbatim>\<open>pd.to_datetime\<close> (\<open>None\<close> where it finds
  no date), \<open>int_of_text\<close> is \<^verbatim>\<open>int\<close> of a text (\<open>None\<close> where it raises),
  \<open>num_of_text\<close> is the parser of \<^verbatim>\<open>pd.to_numeric\<close> (\<open>None\<close> where it finds no
  number), \<open>title_of_text\<close> is \<^verbatim>\<open>str.title\<close> on a text with characters beyond
  ASCII (whose letters and cases the Unicode tables decide), \<open>int64_of_float\<close> is
  what the cast of \<^verbatim>\<open>astype('int64')\<close> gives for a float that is not in the range
  of a 64-bit integer (numpy leaves it to the platform).
\<close>

record pandas =
  fmt :: "cell \<Rightarrow> string"
  to_ts :: "cell \<Rightarrow> int option"
  int_of_text :: "string \<Rightarrow> int option"
  num_of_text :: "string \<Rightarrow> float64 option"
  title_of_text :: "string \<Rightarrow> string"
  int64_of_float :: "float64 \<Rightarrow> int"

definition py_title :: "pandas \<Rightarrow> string \<Rightarrow> string" where
  "py_title pd s = (if is_ascii s then title_ascii s else title_of_text pd s)"

definition col :: "frame \<Rightarrow> string \<Rightarrow> error + cell list" where
  "col df c = (if c \<in> set (columns df) then Inr (map (\<lambda>r. r c) (rows df)) else Inl (KeyError c))"

definition set_col :: "frame \<Rightarrow> string \<Rightarrow> cell list \<Rightarrow> frame" where
  "set_col df c vs =
     \<lparr>columns = (if c \<in> set (columns df) then columns df else columns df @ [c]),
      rows = map (\<lambda>(r, v). r(c := v)) (zip (rows df) vs)\<rparr>"

definition rename :: "string \<Rightarrow> string \<Rightarrow> frame \<Rightarrow> frame" where
  "rename old new df =
     (if old \<in> set (columns df)
      then \<lparr>columns = map (\<lambda>c. if c = old then new else c) (columns df),
            rows = map (\<lambda>r. r(new := r old)) (rows df)\<rparr>
      else df)"

definition astype_str :: "pandas \<Rightarrow> cell \<Rightarrow> cell" where
  "astype_str pd v =
     (case v of Null \<Rightarrow> Str ''None'' | Str s \<Rightarrow> Str s | IntV i \<Rightarrow> Str (str_int i)
      | other \<Rightarrow> Str (fmt pd other))"

text \<open>
  The cast of a float to a 64-bit integer cuts the fraction off; a value outside the
  64-bit range, or an infinity, gives what the platform's cast gives.
\<close>

definition int64_range :: "int \<Rightarrow> bool" where
  "int64_range n \<longleftrightarrow> - (2 ^ 63) \<le> n \<and> n < 2 ^ 63"

definition cut_fraction :: "rat \<Rightarrow> int" where
  "cut_fraction q = (if q < 0 then \<lceil>q\<rceil> else \<lfloor>q\<rfloor>)"

definition to_int64 :: "pandas \<Rightarrow> float64 \<Rightarrow> int" where
  "to_int64 pd x =
     (case x of
        Finite q \<Rightarrow> if int64_range (cut_fraction q) then cut_fraction q else int64_of_float pd x
      | other \<Rightarrow> int64_of_float pd x)"

definition astype_int :: "pandas \<Rightarrow> cell \<Rightarrow> error + cell" where
  "astype_int pd v =
     (case v of Null \<Rightarrow> Inl TypeError | IntV i \<Rightarrow> Inr (IntV i)
      | Flt (Finite q) \<Rightarrow> Inr (IntV (to_int64 pd (Finite q)))
      | Flt x \<Rightarrow> Inl ValueError
      | Str s \<Rightarrow> (case int_of_text pd s of None \<Rightarrow> Inl ValueError | Some i \<Rightarrow> Inr (IntV i))
      | Ts t \<Rightarrow> Inr (IntV (t * 1000000000)))"

fun sequence :: "(error + 'a) list \<Rightarrow> error + 'a list" where
  "sequence [] = Inr []"
| "sequence (x # xs) =
     (case x of Inl e \<Rightarrow> Inl e
      | Inr v \<Rightarrow> (case sequence xs of Inl e \<Rightarrow> Inl e | Inr vs \<Rightarrow> Inr (v # vs)))"

text \<open>\<^verbatim>\<open>groupby(...).cumcount()\<close>: for each row, how many earlier rows carry its key.\<close>

fun cumcount_from :: "'a list \<Rightarrow> 'a list \<Rightarrow> nat list" where
  "cumcount_from seen [] = []"
| "cumcount_from seen (k # ks) = count_list seen k # cumcount_from (seen @ [k]) ks"

definition cumcount :: "'a list \<Rightarrow> nat list" where
  "cumcount ks = cumcount_from [] ks"

section \<open>Intermediate tables: feedback and orders\<close>

definition is_date_column :: "string \<Rightarrow> bool" where
  "is_date_column c \<longleftrightarrow> contains ''_date'' (py_lower c)"

definition to_datetime :: "pandas \<Rightarrow> cell \<Rightarrow> cell" where
  "to_datetime pd v = (case to_ts pd v of None \<Rightarrow> Null | Some t \<Rightarrow> Ts t)"

definition transform_date_columns :: "pandas \<Rightarrow> frame \<Rightarrow> frame" where
  "transform_date_columns pd df =
     df\<lparr>rows := map (\<lambda>r c. if c \<in> set (columns df) \<and> is_date_column c
                               then to_datetime pd (r c) else r c) (rows df)\<rparr>"

definition synth_key :: "nat \<Rightarrow> cell \<Rightarrow> cell" where
  "synth_key n v = (case v of Str s \<Rightarrow> Str (str_nat n @ ''_'' @ s) | other \<Rightarrow> Null)"

definition transform_feedback_table :: "pandas \<Rightarrow> frame \<Rightarrow> error + frame" where
  "transform_feedback_table pd df =
     (case col df ''feedback_id'' of Inl e \<Rightarrow> Inl e | Inr ids \<Rightarrow>
      let df1 = set_col df ''feedback_id'' (map (astype_str pd) ids) in
      case col df1 ''feedback_score'' of Inl e \<Rightarrow> Inl e | Inr scores \<Rightarrow>
      case sequence (map (astype_int pd) scores) of Inl e \<Rightarrow> Inl e | Inr scores' \<Rightarrow>
      let df2 = set_col df1 ''feedback_score'' scores';
          keys = map (\<lambda>r. r ''feedback_id'') (rows df2);
          df3 = set_col df2 ''feedback_id'' (map (\<lambda>(n, k). synth_key n k) (zip (cumcount keys) keys))
      in Inr (transform_date_columns pd df3))"

text \<open>
  The left merge of the orders with the \<^verbatim>\<open>order_id\<close> and \<^verbatim>\<open>feedback_id\<close>
  columns of the feedback table, \<^verbatim>\<open>df.merge(..., on='order_id', how='left')\<close>:
  every left row is paired with each right row of the same order id, in the right
  frame's order, and kept once with a missing feedback id when there is none. A
  \<^verbatim>\<open>feedback_id\<close> column already in the left frame is renamed with the suffix
  \<^verbatim>\<open>_x\<close>, the right one then arrives as \<^verbatim>\<open>feedback_id_y\<close>.
\<close>

definition feedback_column :: "frame \<Rightarrow> string" where
  "feedback_column df =
     (if ''feedback_id'' \<in> set (columns df) then ''feedback_id_y'' else ''feedback_id'')"

definition merge_row :: "string \<Rightarrow> (string \<Rightarrow> cell) list \<Rightarrow> (string \<Rightarrow> cell) \<Rightarrow> (string \<Rightarrow> cell) list" where
  "merge_row fc right l =
     (case filter (\<lambda>r. r ''order_id'' = l ''order_id'') right of
        [] \<Rightarrow> [l(fc := Null)]
      | ms \<Rightarrow> map (\<lambda>m. l(fc := m ''feedback_id'')) ms)"

definition merge_left :: "frame \<Rightarrow> frame \<Rightarrow> error + frame" where
  "merge_left df fb =
     (if ''order_id'' \<notin> set (columns fb) then Inl (KeyError ''order_id'')
      else if ''feedback_id'' \<notin> set (columns fb) then Inl (KeyError ''feedback_id'')
      else if ''order_id'' \<notin> set (columns df) then Inl (KeyError ''order_id'')
      else
        let df' = rename ''feedback_id'' ''feedback_id_x'' df
        in Inr \<lparr>columns = columns df' @ [feedback_column df],
                rows = concat (map (merge_row (feedback_column df) (rows fb)) (rows df'))\<rparr>)"

fun astype_str_cols :: "pandas \<Rightarrow> string list \<Rightarrow> frame \<Rightarrow> error + frame" where
  "astype_str_cols pd [] df = Inr df"
| "astype_str_cols pd (c # cs) df =
     (case col df c of Inl e \<Rightarrow> Inl e
      | Inr vs \<Rightarrow> astype_str_cols pd cs (set_col df c (map (astype_str pd) vs)))"

definition transform_orders_table :: "pandas \<Rightarrow> frame \<Rightarrow> frame \<Rightarrow> error + frame" where
  "transform_orders_table pd df df_feedbacks =
     (case astype_str_cols pd [''order_id'', ''user_id'', ''order_status'']
             (rename ''user_name'' ''user_id'' df) of
        Inl e \<Rightarrow> Inl e
      | Inr df1 \<Rightarrow> merge_left (transform_date_columns pd df1) df_feedbacks)"


text \<open>
  \<^verbatim>\<open>main\<close> transforms the feedback table first and hands the result to the orders
  transform.
\<close>

definition orders_after_feedback :: "pandas \<Rightarrow> frame \<Rightarrow> frame \<Rightarrow> error + frame" where
  "orders_after_feedback pd orders feedback =
     (case transform_feedback_table pd feedback of
        Inl e \<Rightarrow> Inl e
      | Inr transformed_feedback \<Rightarrow> transform_orders_table pd orders transformed_feedback)"

definition column_of :: "string \<Rightarrow> error + frame \<Rightarrow> error + cell list" where
  "column_of c res = (case res of Inl e \<Rightarrow> Inl e | Inr df \<Rightarrow> col df c)"

definition row_of :: "(string \<times> cell) list \<Rightarrow> string \<Rightarrow> cell" where
  "row_of kvs c = (case map_of kvs c of None \<Rightarrow> Null | Some v \<Rightarrow> v)"

section \<open>Intermediate tables: the transforms that name their columns\<close>

text \<open>
  These transforms address fixed columns, so their rows are records. A text column
  holds a text or the missing value (\<open>None\<close>); the integer and float columns are
  the ones the raw loader stages as \<^verbatim>\<open>BIGINT\<close> and \<^verbatim>\<open>DOUBLE\<close>, on which
  \<^verbatim>\<open>astype(int)\<close> and \<^verbatim>\<open>astype(float)\<close> change nothing. Floats are exact
  rationals.
\<close>

definition astype_text :: "string option \<Rightarrow> string option" where
  "astype_text v = (case v of None \<Rightarrow> Some ''None'' | Some s \<Rightarrow> Some s)"

definition astype_text_nan :: "string option \<Rightarrow> string option" where
  "astype_text_nan v = (case v of None \<Rightarrow> Some ''nan'' | Some s \<Rightarrow> Some s)"

definition unique :: "'a list \<Rightarrow> 'a list" where
  "unique xs = rev (remdups (rev xs))"

text \<open>
  \<^verbatim>\<open>groupby\<close> leaves out the rows whose key is missing and orders the groups by
  key; the rows of a group keep their order.
\<close>

definition group_keys :: "('k::linorder) option list \<Rightarrow> 'k list" where
  "group_keys ks = sort (remdups (map the (filter (\<lambda>k. k \<noteq> None) ks)))"

definition group_of :: "('r \<Rightarrow> 'k option) \<Rightarrow> 'k \<Rightarrow> 'r list \<Rightarrow> 'r list" where
  "group_of key k df = filter (\<lambda>r. key r = Some k) df"

subsection \<open>Payments\<close>

record payment_row =
  pay_order_id :: "string option"
  payment_sequential :: int
  payment_installments :: int
  payment_type :: "string option"
  payment_value :: rat

record payment_d =
  payment_id :: "string option"
  d_payment_sequential :: string
  d_payment_installments :: string
  d_payment_type :: string
  d_payment_value :: rat

definition title_code :: "pandas \<Rightarrow> string option \<Rightarrow> string option" where
  "title_code pd v = map_option (\<lambda>s. py_title pd (replace_char (CHR ''_'') (CHR '' '') s)) v"

definition payments_agg :: "string \<Rightarrow> payment_row list \<Rightarrow> error + payment_d" where
  "payments_agg k g =
     (if None \<in> set (map payment_type g) then Inl TypeError
      else Inr \<lparr>payment_id = Some k,
                d_payment_sequential = py_join '', '' (map str_int (sort (map payment_sequential g))),
                d_payment_installments = py_join '', '' (map str_int (sort (map payment_installments g))),
                d_payment_type = py_join '', '' (sort (map (\<lambda>r. the (payment_type r)) g)),
                d_payment_value = sum_list (map payment_value g)\<rparr>)"

definition payments_prepare :: "pandas \<Rightarrow> payment_row \<Rightarrow> payment_row" where
  "payments_prepare pd r =
     r\<lparr>payment_type := title_code pd (payment_type r), pay_order_id := astype_text (pay_order_id r)\<rparr>"

definition transform_payments_table :: "pandas \<Rightarrow> payment_row list \<Rightarrow> error + payment_d list" where
  "transform_payments_table pd df =
     (let df1 = map (payments_prepare pd) df
      in sequence (map (\<lambda>k. payments_agg k (group_of pay_order_id k df1))
                       (group_keys (map pay_order_id df1))))"

subsection \<open>Products and sellers\<close>

record products_row =
  product_id :: "string option"
  product_category :: "string option"

definition transform_products_table ::
    "pandas \<Rightarrow> 'a products_row_scheme list \<Rightarrow> 'a products_row_scheme list" where
  "transform_products_table pd df =
     map (\<lambda>r. r\<lparr>product_id := astype_text (product_id r),
                  product_category := astype_text_nan (title_code pd (product_category r))\<rparr>) df"

record sellers_row =
  raw_seller_id :: "string option"
  raw_seller_zip_code :: int
  raw_seller_city :: "string option"
  raw_seller_state :: "string option"

record sellers_d =
  seller_id :: "string option"
  seller_zip_code :: string
  seller_city :: "string option"
  seller_state :: "string option"

definition title_text :: "pandas \<Rightarrow> string option \<Rightarrow> string option" where
  "title_text pd v = map_option (py_title pd) (astype_text v)"

definition transform_sellers_table :: "pandas \<Rightarrow> sellers_row list \<Rightarrow> sellers_d list" where
  "transform_sellers_table pd df =
     map (\<lambda>r. \<lparr>seller_id = astype_text (raw_seller_id r),
                seller_zip_code = str_int (raw_seller_zip_code r),
                seller_city = title_text pd (raw_seller_city r),
                seller_state = title_text pd (raw_seller_state r)\<rparr>) df"

subsection \<open>Users\<close>

record users_row =
  user_name :: "string option"
  customer_zip_code :: int
  customer_city :: "string option"
  customer_state :: "string option"

record users_d =
  user_id :: "string option"
  user_zip_code :: string
  user_city :: string
  user_state :: string

definition users_prepare :: "pandas \<Rightarrow> users_row \<Rightarrow> users_d" where
  "users_prepare pd r =
     \<lparr>user_id = astype_text (user_name r),
      user_zip_code = str_int (customer_zip_code r),
      user_city = the (title_text pd (customer_city r)),
      user_state = the (title_text pd (customer_state r))\<rparr>"

definition users_agg :: "string \<Rightarrow> users_d list \<Rightarrow> users_d" where
  "users_agg k g =
     \<lparr>user_id = Some k,
      user_zip_code = py_join '', '' (unique (map user_zip_code g)),
      user_city = py_join '', '' (unique (map user_city g)),
      user_state = py_join '', '' (unique (map user_state g))\<rparr>"

definition transform_users_table :: "pandas \<Rightarrow> users_row list \<Rightarrow> users_d list" where
  "transform_users_table pd df =
     (let df1 = map (users_prepare pd) df
      in map (\<lambda>k. users_agg k (group_of user_id k df1)) (group_keys (map user_id df1)))"

subsection \<open>Order lines\<close>

record order_item_row =
  order_id :: "string option"
  order_item_id :: int
  item_product_id :: "string option"
  item_seller_id :: "string option"
  price :: rat
  shipping_cost :: rat

record order_item_d =
  d_order_id :: "string option"
  d_order_item_id :: string
  d_price :: rat
  d_shipping_cost :: rat
  d_product_id :: "string option"
  d_seller_id :: "string option"
  quantity :: nat

definition ProductSellerPair :: "order_item_row \<Rightarrow> string" where
  "ProductSellerPair r =
     the (astype_text (item_product_id r)) @ ''-'' @ the (astype_text (item_seller_id r))"

definition item_key :: "order_item_row \<Rightarrow> (string \<times> string) option" where
  "item_key r = map_option (\<lambda>k. (k, ProductSellerPair r)) (order_id r)"

text \<open>
  \<^verbatim>\<open>str.split("-", expand=True)\<close> makes as many columns as the longest split
  has pieces (none for a table without rows) and pads the shorter splits with
  missing values; the assignment to the two columns \<^verbatim>\<open>product_id\<close> and
  \<^verbatim>\<open>seller_id\<close> raises unless there are exactly two.
\<close>

definition split_width :: "string list list \<Rightarrow> nat" where
  "split_width pieces = foldr max (map length pieces) 0"

definition piece :: "nat \<Rightarrow> string list \<Rightarrow> string option" where
  "piece i ps = (if i < length ps then Some (ps ! i) else None)"

definition order_item_agg :: "string \<times> string \<Rightarrow> order_item_row list \<Rightarrow> order_item_d" where
  "order_item_agg k g =
     (let ids = py_join '', '' (map str_int (sort (map order_item_id g)));
          ps = py_split ''-'' (snd k)
      in \<lparr>d_order_id = Some (fst k),
          d_order_item_id = ids,
          d_price = sum_list (map price g),
          d_shipping_cost = sum_list (map shipping_cost g),
          d_product_id = piece 0 ps,
          d_seller_id = piece 1 ps,
          quantity = length (py_split '', '' ids)\<rparr>)"

definition transform_order_item_table :: "order_item_row list \<Rightarrow> error + order_item_d list" where
  "transform_order_item_table df =
     (let keys = group_keys (map item_key df)
      in if split_width (map (\<lambda>k. py_split ''-'' (snd k)) keys) \<noteq> 2 then Inl ValueError
         else Inr (map (\<lambda>k. order_item_agg k (group_of item_key k df)) keys))"

section \<open>Keys, order ids and example tables\<close>

text \<open>
  The key columns the properties below speak about, and small tables on which the
  transforms are evaluated: a feedback table in which one order has two feedback rows
  with the same raw key, an orders table with an unparseable date, order lines with
  a repeated line-item id and with a missing order id, products with a repeated key.
\<close>

definition feedback_keys :: "pandas \<Rightarrow> frame \<Rightarrow> cell list" where
  "feedback_keys pd df = map (\<lambda>r. astype_str pd (r ''feedback_id'')) (rows df)"

definition order_keys :: "pandas \<Rightarrow> frame \<Rightarrow> cell list" where
  "order_keys pd df = map (\<lambda>r. astype_str pd (r ''order_id'')) (rows df)"

definition plain_pandas :: pandas where
  "plain_pandas = \<lparr>fmt = (\<lambda>v. ''?''), to_ts = (\<lambda>v. case v of Ts t \<Rightarrow> Some t | other \<Rightarrow> None),
                    int_of_text = (\<lambda>s. None), num_of_text = (\<lambda>s. None),
                    title_of_text = (\<lambda>s. s), int64_of_float = (\<lambda>x. - (2 ^ 63))\<rparr>"

definition feedback_example :: frame where
  "feedback_example =
     \<lparr>columns = [''feedback_id'', ''order_id'', ''feedback_score'', ''feedback_answer_date''],
      rows = [row_of [(''feedback_id'', Str ''ab''), (''order_id'', Str ''O1''), (''feedback_score'', IntV 5)],
              row_of [(''feedback_id'', Str ''ab''), (''order_id'', Str ''O1''), (''feedback_score'', IntV 4)]]\<rparr>"

definition feedback_d_example :: frame where
  "feedback_d_example =
     \<lparr>columns = [''feedback_id'', ''order_id'', ''feedback_score''],
      rows = [row_of [(''feedback_id'', Str ''0_ab''), (''order_id'', Str ''O1''), (''feedback_score'', IntV 5)]]\<rparr>"

definition orders_example :: frame where
  "orders_example =
     \<lparr>columns = [''order_id'', ''user_name'', ''order_status'', ''order_date'', ''estimated_time_delivery''],
      rows = [row_of [(''order_id'', Str ''O1''), (''user_name'', Str ''u1''), (''order_status'', Str ''delivered''),
                      (''order_date'', Str ''soon''), (''estimated_time_delivery'', Str ''soon'')],
              row_of [(''order_id'', Str ''O2''), (''user_name'', Str ''u1''), (''order_status'', Str ''delivered''),
                      (''order_date'', Ts 0), (''estimated_time_delivery'', Ts 0)]]\<rparr>"

definition order_ids :: "frame \<Rightarrow> cell list" where
  "order_ids df = map (\<lambda>r. r ''order_id'') (rows df)"

definition feedback_ids :: "frame \<Rightarrow> cell list" where
  "feedback_ids df = map (\<lambda>r. r ''feedback_id'') (rows df)"

definition rows_per_order :: "cell list \<Rightarrow> cell list \<Rightarrow> cell list" where
  "rows_per_order fbk ks = concat (map (\<lambda>k. replicate (max 1 (count_list fbk k)) k) ks)"

definition products_example :: "products_row list" where
  "products_example =
     [\<lparr>product_id = Some ''p1'', product_category = Some ''cool_stuff''\<rparr>,
      \<lparr>product_id = Some ''p1'', product_category = None\<rparr>]"

definition sellers_example :: "sellers_row list" where
  "sellers_example =
     [\<lparr>raw_seller_id = Some ''s1'', raw_seller_zip_code = 1234, raw_seller_city = Some ''sao paulo'',
       raw_seller_state = Some ''SP''\<rparr>]"

definition users_example :: "users_row list" where
  "users_example =
     [\<lparr>user_name = Some ''u2'', customer_zip_code = 1234, customer_city = Some ''sao paulo'',
       customer_state = Some ''SP''\<rparr>,
      \<lparr>user_name = Some ''u1'', customer_zip_code = 99, customer_city = Some ''rio'',
       customer_state = Some ''RJ''\<rparr>,
      \<lparr>user_name = Some ''u2'', customer_zip_code = 1234, customer_city = Some ''campinas'',
       customer_state = Some ''SP''\<rparr>,
      \<lparr>user_name = None, customer_zip_code = 5, customer_city = None,
       customer_state = Some ''SP''\<rparr>]"

definition payments_example :: "payment_row list" where
  "payments_example =
     [\<lparr>pay_order_id = Some ''O1'', payment_sequential = 2, payment_installments = 1,
       payment_type = Some ''voucher'', payment_value = 5 / 2\<rparr>,
      \<lparr>pay_order_id = Some ''O2'', payment_sequential = 1, payment_installments = 3,
       payment_type = Some ''credit_card'', payment_value = 10\<rparr>,
      \<lparr>pay_order_id = Some ''O1'', payment_sequential = 1, payment_installments = 1,
       payment_type = Some ''credit_card'', payment_value = 20\<rparr>]"








section \<open>Calendar tables\<close>

text \<open>
  A date is its number of days since 1970-01-01, a time of day its number of seconds
  since midnight. \<open>days_from_civil\<close> and \<open>civil_from_days\<close> are the calendar
  arithmetic behind \<^verbatim>\<open>pd.to_datetime("2016-04-09")\<close> and the \<^verbatim>\<open>year\<close>,
  \<^verbatim>\<open>month\<close> and \<^verbatim>\<open>day\<close> of a timestamp; \<open>date_range\<close> is \<^verbatim>\<open>pd.date_range\<close>
  with a fixed step. The keys are the numbers that \<^verbatim>\<open>int(strftime('%Y%m%d'))\<close>
  and the digits of \<^verbatim>\<open>HH:MM:SS\<close> read as one integer give.
\<close>

definition days_from_civil :: "int \<Rightarrow> int \<Rightarrow> int \<Rightarrow> int" where
  "days_from_civil y m d =
     (let y' = (if m \<le> 2 then y - 1 else y);
          era = y' div 400;
          yoe = y' - era * 400;
          doy = (153 * (if m > 2 then m - 3 else m + 9) + 2) div 5 + d - 1;
          doe = yoe * 365 + yoe div 4 - yoe div 100 + doy
      in era * 146097 + doe - 719468)"

definition civil_from_days :: "int \<Rightarrow> int \<times> int \<times> int" where
  "civil_from_days z0 =
     (let z = z0 + 719468;
          era = z div 146097;
          doe = z - era * 146097;
          yoe = (doe - doe div 1460 + doe div 36524 - doe div 146096) div 365;
          doy = doe - (365 * yoe + yoe div 4 - yoe div 100);
          mp = (5 * doy + 2) div 153;
          d = doy - (153 * mp + 2) div 5 + 1;
          m = (if mp < 10 then mp + 3 else mp - 9);
          y = yoe + era * 400
      in (if m \<le> 2 then y + 1 else y, m, d))"

definition weekday :: "int \<Rightarrow> int" where
  "weekday z = (z + 3) mod 7"

definition date_range :: "int \<Rightarrow> int \<Rightarrow> int \<Rightarrow> int list" where
  "date_range start end step = map (\<lambda>k. start + int k * step) [0 ..< nat ((end - start) div step + 1)]"

record date_row =
  Date :: int
  DateKey :: int
  Day :: int
  DayName :: string
  Month :: int
  MonthName :: string
  Quarter :: int
  Year :: int
  DayOfWeek :: int
  IsWeekend :: int
  Season :: string

definition day_names :: "string list" where
  "day_names = [''Monday'', ''Tuesday'', ''Wednesday'', ''Thursday'', ''Friday'', ''Saturday'', ''Sunday'']"

definition month_names :: "string list" where
  "month_names = [''January'', ''February'', ''March'', ''April'', ''May'', ''June'', ''July'',
                  ''August'', ''September'', ''October'', ''November'', ''December'']"

definition season_of :: "int \<Rightarrow> string" where
  "season_of month =
     (if month \<in> set [12, 1, 2] then ''Winter''
      else if month \<in> set [3, 4, 5] then ''Spring''
      else if month \<in> set [6, 7, 8] then ''Summer''
      else ''Fall'')"

definition date_row_of :: "int \<Rightarrow> date_row" where
  "date_row_of z =
     (case civil_from_days z of (y, m, d) \<Rightarrow>
        \<lparr>Date = z,
         DateKey = y * 10000 + m * 100 + d,
         Day = d,
         DayName = day_names ! nat (weekday z),
         Month = m,
         MonthName = month_names ! nat (m - 1),
         Quarter = (m - 1) div 3 + 1,
         Year = y,
         DayOfWeek = weekday z,
         IsWeekend = (if weekday z \<in> set [5, 6] then 1 else 0),
         Season = season_of m\<rparr>)"

record time_row =
  Time :: int
  TimeKey :: int
  Hour :: int
  Minute :: int
  Second :: int
  AM_PM :: string
  TimeOfDay :: string

definition time_of_day :: "int \<Rightarrow> string" where
  "time_of_day h =
     (if 0 \<le> h \<and> h < 6 then ''Night''
      else if 6 \<le> h \<and> h < 12 then ''Morning''
      else if 12 \<le> h \<and> h < 18 then ''Afternoon''
      else ''Evening'')"

definition time_row_of :: "int \<Rightarrow> time_row" where
  "time_row_of t =
     (let h = t div 3600; m = (t mod 3600) div 60; s = t mod 60
      in \<lparr>Time = t,
          TimeKey = h * 10000 + m * 100 + s,
          Hour = h,
          Minute = m,
          Second = s,
          AM_PM = (if h < 12 then ''AM'' else ''PM''),
          TimeOfDay = time_of_day h\<rparr>)"

definition start_date :: int where
  "start_date = days_from_civil 2016 4 9"

definition end_date :: int where
  "end_date = days_from_civil 2018 10 17"

definition date_d :: "date_row list" where
  "date_d = map date_row_of (date_range start_date end_date 1)"

definition times_d :: "time_row list" where
  "times_d = map time_row_of (date_range 0 86399 60)"

section \<open>The raw loader's schema inference\<close>















section \<open>The fact table\<close>

text \<open>
  The tables the fact query reads, with the columns it reads; a column value is
  \<open>None\<close> for SQL's \<^verbatim>\<open>NULL\<close>. A comparison is three-valued (\<open>None\<close> when an
  operand is \<^verbatim>\<open>NULL\<close>); an \<^verbatim>\<open>ON\<close> condition and a \<^verbatim>\<open>WHEN\<close> condition hold only
  when they are true. \<open>left_join\<close> pairs a row with every matching row of the
  table, and with \<^verbatim>\<open>NULL\<close>s once when none matches. The fields of \<open>joined\<close> are
  the aliases of the query (\<^verbatim>\<open>o\<close>, \<^verbatim>\<open>oi\<close>, \<^verbatim>\<open>u\<close>, ...), \<open>from_clause\<close> is its
  \<^verbatim>\<open>FROM\<close> with the sixteen joins in their order, \<open>select_fact\<close> its column list.
\<close>

record orders_d_row =
  o_order_id :: "string option"
  o_user_id :: "string option"
  o_order_status :: "string option"
  o_feedback_id :: "string option"
  o_order_date :: "int option"
  o_delivered_date :: "int option"
  o_estimated_time_delivery :: "int option"
  o_order_approved_date :: "int option"
  o_pickup_date :: "int option"

record dim_users_row =
  u_UserID :: "string option"
  u_UserState :: "string option"

record dim_sellers_row =
  s_SellerID :: "string option"

record dim_products_row =
  pd_ProductID :: "string option"

record dim_payments_row =
  p_PaymentID :: "string option"
  p_PaymentValue :: "rat option"

record dim_feedbacks_row =
  f_FeedbackID :: "string option"

record database =
  orders_tbl :: "orders_d_row list"
  order_item_tbl :: "order_item_d list"
  users_tbl :: "dim_users_row list"
  sellers_tbl :: "dim_sellers_row list"
  products_tbl :: "dim_products_row list"
  payments_tbl :: "dim_payments_row list"
  feedbacks_tbl :: "dim_feedbacks_row list"
  date_tbl :: "date_row list"
  times_tbl :: "time_row list"

record joined =
  j_o :: orders_d_row
  j_oi :: "order_item_d option"
  j_u :: "dim_users_row option"
  j_s :: "dim_sellers_row option"
  j_pd :: "dim_products_row option"
  j_p :: "dim_payments_row option"
  j_f :: "dim_feedbacks_row option"
  j_d1 :: "date_row option"
  j_t1 :: "time_row option"
  j_d2 :: "date_row option"
  j_t2 :: "time_row option"
  j_d3 :: "date_row option"
  j_t3 :: "time_row option"
  j_d4 :: "date_row option"
  j_t4 :: "time_row option"
  j_d5 :: "date_row option"
  j_t5 :: "time_row option"

record fact_row =
  OrderID :: "string option"
  UserID :: "string option"
  ProductID :: "string option"
  SellerID :: "string option"
  PaymentID :: "string option"
  FeedbackID :: "string option"
  OrderDateKey :: "int option"
  OrderTimeKey :: "int option"
  PaymentValue :: "rat option"
  UserState :: "string option"
  DeliveredDateKey :: "int option"
  DeliveredTimeKey :: "int option"
  DeliveryDelayCheck :: string
  DeliveryDelayDays :: "int option"
  EstimatedDeliveryDateKey :: "int option"
  EstimatedDeliveryTimeKey :: "int option"
  OrderApprovedDateKey :: "int option"
  OrderApprovedTimeKey :: "int option"
  OrderStatus :: "string option"
  PickupDateKey :: "int option"
  PickupTimeKey :: "int option"
  Quantity :: "nat option"
  ShippingDays :: "int option"

definition sql_eq :: "'a option \<Rightarrow> 'a option \<Rightarrow> bool option" where
  "sql_eq a b = (case (a, b) of (Some x, Some y) \<Rightarrow> Some (x = y) | other \<Rightarrow> None)"

definition sql_less :: "int option \<Rightarrow> int option \<Rightarrow> bool option" where
  "sql_less a b = (case (a, b) of (Some x, Some y) \<Rightarrow> Some (x < y) | other \<Rightarrow> None)"

definition sql_and :: "bool option \<Rightarrow> bool option \<Rightarrow> bool option" where
  "sql_and a b =
     (if a = Some False \<or> b = Some False then Some False
      else if a = Some True \<and> b = Some True then Some True else None)"

definition holds :: "bool option \<Rightarrow> bool" where
  "holds c \<longleftrightarrow> c = Some True"

definition case_when :: "bool option \<Rightarrow> 'a \<Rightarrow> 'a \<Rightarrow> 'a" where
  "case_when c a b = (if holds c then a else b)"

definition DATE :: "int option \<Rightarrow> int option" where
  "DATE t = map_option (\<lambda>x. x div 86400) t"

definition HOUR :: "int option \<Rightarrow> int option" where
  "HOUR t = map_option (\<lambda>x. (x mod 86400) div 3600) t"

definition MINUTE :: "int option \<Rightarrow> int option" where
  "MINUTE t = map_option (\<lambda>x. (x mod 3600) div 60) t"

definition DATEDIFF :: "int option \<Rightarrow> int option \<Rightarrow> int option" where
  "DATEDIFF a b = (case (a, b) of (Some x, Some y) \<Rightarrow> Some (x - y) | other \<Rightarrow> None)"

definition left_join ::
    "('j \<Rightarrow> 'b \<Rightarrow> bool option) \<Rightarrow> ('j \<Rightarrow> 'b option \<Rightarrow> 'j) \<Rightarrow> 'b list \<Rightarrow> 'j list \<Rightarrow> 'j list" where
  "left_join on put tbl js =
     concat (map (\<lambda>j. case filter (\<lambda>m. holds (on j m)) tbl of
                          [] \<Rightarrow> [put j None]
                        | ms \<Rightarrow> map (\<lambda>m. put j (Some m)) ms) js)"

definition from_order :: "orders_d_row \<Rightarrow> joined" where
  "from_order r =
     \<lparr>j_o = r, j_oi = None, j_u = None, j_s = None, j_pd = None, j_p = None, j_f = None,
      j_d1 = None, j_t1 = None, j_d2 = None, j_t2 = None, j_d3 = None, j_t3 = None,
      j_d4 = None, j_t4 = None, j_d5 = None, j_t5 = None\<rparr>"

definition on_date :: "int option \<Rightarrow> date_row \<Rightarrow> bool option" where
  "on_date t d = sql_eq (DATE t) (Some (Date d))"

definition on_time :: "int option \<Rightarrow> time_row \<Rightarrow> bool option" where
  "on_time t m = sql_and (sql_eq (HOUR t) (Some (Hour m))) (sql_eq (MINUTE t) (Some (Minute m)))"

definition from_clause :: "database \<Rightarrow> joined list" where
  "from_clause db =
     fold (\<lambda>join js. join js)
       [left_join (\<lambda>j m. sql_eq (o_order_id (j_o j)) (d_order_id m)) (\<lambda>j v. j\<lparr>j_oi := v\<rparr>) (order_item_tbl db),
        left_join (\<lambda>j m. sql_eq (o_user_id (j_o j)) (u_UserID m)) (\<lambda>j v. j\<lparr>j_u := v\<rparr>) (users_tbl db),
        left_join (\<lambda>j m. sql_eq (Option.bind (j_oi j) d_seller_id) (s_SellerID m)) (\<lambda>j v. j\<lparr>j_s := v\<rparr>) (sellers_tbl db),
        left_join (\<lambda>j m. sql_eq (Option.bind (j_oi j) d_product_id) (pd_ProductID m)) (\<lambda>j v. j\<lparr>j_pd := v\<rparr>) (products_tbl db),
        left_join (\<lambda>j m. sql_eq (o_order_id (j_o j)) (p_PaymentID m)) (\<lambda>j v. j\<lparr>j_p := v\<rparr>) (payments_tbl db),
        left_join (\<lambda>j m. sql_eq (o_feedback_id (j_o j)) (f_FeedbackID m)) (\<lambda>j v. j\<lparr>j_f := v\<rparr>) (feedbacks_tbl db),
        left_join (\<lambda>j. on_date (o_order_date (j_o j))) (\<lambda>j v. j\<lparr>j_d1 := v\<rparr>) (date_tbl db),
        left_join (\<lambda>j. on_time (o_order_date (j_o j))) (\<lambda>j v. j\<lparr>j_t1 := v\<rparr>) (times_tbl db),
        left_join (\<lambda>j. on_date (o_delivered_date (j_o j))) (\<lambda>j v. j\<lparr>j_d2 := v\<rparr>) (date_tbl db),
        left_join (\<lambda>j. on_time (o_delivered_date (j_o j))) (\<lambda>j v. j\<lparr>j_t2 := v\<rparr>) (times_tbl db),
        left_join (\<lambda>j. on_date (o_estimated_time_delivery (j_o j))) (\<lambda>j v. j\<lparr>j_d3 := v\<rparr>) (date_tbl db),
        left_join (\<lambda>j. on_time (o_estimated_time_delivery (j_o j))) (\<lambda>j v. j\<lparr>j_t3 := v\<rparr>) (times_tbl db),
        left_join (\<lambda>j. on_date (o_order_approved_date (j_o j))) (\<lambda>j v. j\<lparr>j_d4 := v\<rparr>) (date_tbl db),
        left_join (\<lambda>j. on_time (o_order_approved_date (j_o j))) (\<lambda>j v. j\<lparr>j_t4 := v\<rparr>) (times_tbl db),
        left_join (\<lambda>j. on_date (o_pickup_date (j_o j))) (\<lambda>j v. j\<lparr>j_d5 := v\<rparr>) (date_tbl db),
        left_join (\<lambda>j. on_time (o_pickup_date (j_o j))) (\<lambda>j v. j\<lparr>j_t5 := v\<rparr>) (times_tbl db)]
       (map from_order (orders_tbl db))"

definition select_fact :: "joined \<Rightarrow> fact_row" where
  "select_fact j =
     \<lparr>OrderID = o_order_id (j_o j),
      UserID = o_user_id (j_o j),
      ProductID = Option.bind (j_oi j) d_product_id,
      SellerID = Option.bind (j_oi j) d_seller_id,
      PaymentID = Option.bind (j_p j) p_PaymentID,
      FeedbackID = Option.bind (j_f j) f_FeedbackID,
      OrderDateKey = map_option DateKey (j_d1 j),
      OrderTimeKey = map_option TimeKey (j_t1 j),
      PaymentValue = Option.bind (j_p j) p_PaymentValue,
      UserState = Option.bind (j_u j) u_UserState,
      DeliveredDateKey = map_option DateKey (j_d2 j),
      DeliveredTimeKey = map_option TimeKey (j_t2 j),
      DeliveryDelayCheck =
        case_when (sql_less (map_option DateKey (j_d3 j)) (map_option DateKey (j_d2 j))) ''TRUE'' ''FALSE'',
      DeliveryDelayDays =
        case_when (sql_less (DATEDIFF (map_option Date (j_d2 j)) (map_option Date (j_d3 j))) (Some 0))
          (Some 0) (DATEDIFF (map_option Date (j_d2 j)) (map_option Date (j_d3 j))),
      EstimatedDeliveryDateKey = map_option DateKey (j_d3 j),
      EstimatedDeliveryTimeKey = map_option TimeKey (j_t3 j),
      OrderApprovedDateKey = map_option DateKey (j_d4 j),
      OrderApprovedTimeKey = map_option TimeKey (j_t4 j),
      OrderStatus = o_order_status (j_o j),
      PickupDateKey = map_option DateKey (j_d5 j),
      PickupTimeKey = map_option TimeKey (j_t5 j),
      Quantity = map_option quantity (j_oi j),
      ShippingDays = DATEDIFF (DATE (o_delivered_date (j_o j))) (DATE (o_pickup_date (j_o j)))\<rparr>"

definition insert_into_fact_order_items :: "database \<Rightarrow> fact_row list" where
  "insert_into_fact_order_items db = map select_fact (from_clause db)"

definition at_time :: "int \<Rightarrow> int \<Rightarrow> int \<Rightarrow> int \<Rightarrow> int \<Rightarrow> int" where
  "at_time y m d hh mm = days_from_civil y m d * 86400 + hh * 3600 + mm * 60"

definition database_example :: database where
  "database_example =
     \<lparr>orders_tbl =
        [\<lparr>o_order_id = Some ''O1'', o_user_id = Some ''u1'', o_order_status = Some ''delivered'',
          o_feedback_id = None, o_order_date = Some (at_time 2017 11 24 10 15),
          o_delivered_date = Some (at_time 2017 11 27 0 0),
          o_estimated_time_delivery = Some (at_time 2017 11 25 0 0),
          o_order_approved_date = None, o_pickup_date = None\<rparr>,
         \<lparr>o_order_id = Some ''O2'', o_user_id = Some ''u1'', o_order_status = Some ''shipped'',
          o_feedback_id = None, o_order_date = Some (at_time 2017 11 24 10 15),
          o_delivered_date = None,
          o_estimated_time_delivery = Some (at_time 2017 11 25 0 0),
          o_order_approved_date = None, o_pickup_date = None\<rparr>,
         \<lparr>o_order_id = Some ''O3'', o_user_id = Some ''u1'', o_order_status = Some ''delivered'',
          o_feedback_id = None, o_order_date = Some (at_time 2017 11 24 10 15),
          o_delivered_date = Some (at_time 2017 11 24 10 15),
          o_estimated_time_delivery = Some (at_time 2017 11 27 0 0),
          o_order_approved_date = None, o_pickup_date = None\<rparr>],
      order_item_tbl =
        [\<lparr>d_order_id = Some ''O1'', d_order_item_id = ''1'', d_price = 100, d_shipping_cost = 10,
          d_product_id = Some ''p1'', d_seller_id = Some ''s1'', quantity = 1\<rparr>],
      users_tbl = [\<lparr>u_UserID = Some ''u1'', u_UserState = Some ''Sp''\<rparr>],
      sellers_tbl = [\<lparr>s_SellerID = Some ''s1''\<rparr>],
      products_tbl = [\<lparr>pd_ProductID = Some ''p1''\<rparr>],
      payments_tbl = [\<lparr>p_PaymentID = Some ''O1'', p_PaymentValue = Some 110\<rparr>],
      feedbacks_tbl = [],
      date_tbl = map date_row_of (date_range (days_from_civil 2017 11 24) (days_from_civil 2017 11 27) 1),
      times_tbl = map time_row_of [0, 36900]\<rparr>"

definition in_calendar :: "database \<Rightarrow> int option \<Rightarrow> bool" where
  "in_calendar db t \<longleftrightarrow> (\<exists>d \<in> set (date_tbl db). DATE t = Some (Date d))"

definition matched :: "date_row list \<Rightarrow> int option \<Rightarrow> date_row option \<Rightarrow> bool" where
  "matched tbl t v \<longleftrightarrow>
     (case v of None \<Rightarrow> \<forall>d \<in> set tbl. DATE t \<noteq> Some (Date d)
      | Some d \<Rightarrow> d \<in> set tbl \<and> DATE t = Some (Date d))"

section \<open>Properties of the string functions\<close>

lemma str_nat_nonempty: "str_nat n \<noteq> []"
  by (subst str_nat.simps) simp

lemma of_char_digit_char: "d < 10 \<Longrightarrow> of_char (digit_char d) = 48 + d"
proof -
  assume d: "d < 10"
  have "of_char (digit_char d) = (48 + d) mod 256"
    unfolding digit_char_def by (rule of_char_of)
  also have "\<dots> = 48 + d" using d by (intro mod_less) linarith
  finally show ?thesis .
qed

lemma digit_char_inj: "a < 10 \<Longrightarrow> b < 10 \<Longrightarrow> digit_char a = digit_char b \<Longrightarrow> a = b"
  using of_char_digit_char[of a] of_char_digit_char[of b] by (metis add_left_cancel)

lemma digit_char_not_underscore: "d < 10 \<Longrightarrow> digit_char d \<noteq> CHR ''_''"
proof
  assume d: "d < 10" and e: "digit_char d = CHR ''_''"
  have "(of_char (CHR ''_'') :: nat) = 48 + d" using of_char_digit_char[OF d] e by metis
  moreover have "of_char (CHR ''_'') = (95::nat)" by simp
  ultimately show False using d by linarith
qed

lemma str_nat_no_underscore: "CHR ''_'' \<notin> set (str_nat n)"
proof (induction n rule: str_nat.induct)
  case (1 n)
  show ?case
  proof (cases "n < 10")
    case True
    then show ?thesis using digit_char_not_underscore[of n] by (subst str_nat.simps) auto
  next
    case False
    then show ?thesis using 1 digit_char_not_underscore[of "n mod 10"]
      by (subst str_nat.simps) auto
  qed
qed

lemma str_nat_inj: "str_nat n = str_nat m \<Longrightarrow> n = m"
proof (induction n arbitrary: m rule: str_nat.induct)
  case (1 n)
  show ?case
  proof (cases "n < 10")
    case True
    then have n: "str_nat n = [digit_char n]" by (subst str_nat.simps) simp
    show ?thesis
    proof (cases "m < 10")
      case m: True
      then have "str_nat m = [digit_char m]" by (subst str_nat.simps) simp
      with n 1(2) True m show ?thesis using digit_char_inj by auto
    next
      case False
      then have "str_nat m = str_nat (m div 10) @ [digit_char (m mod 10)]"
        by (subst str_nat.simps) simp
      with n 1(2) show ?thesis using str_nat_nonempty[of "m div 10"] by (cases "str_nat (m div 10)") auto
    qed
  next
    case False
    then have n: "str_nat n = str_nat (n div 10) @ [digit_char (n mod 10)]"
      by (subst str_nat.simps) simp
    show ?thesis
    proof (cases "m < 10")
      case True
      then have "str_nat m = [digit_char m]" by (subst str_nat.simps) simp
      with n 1(2) show ?thesis using str_nat_nonempty[of "n div 10"] by (cases "str_nat (n div 10)") auto
    next
      case m: False
      then have "str_nat m = str_nat (m div 10) @ [digit_char (m mod 10)]"
        by (subst str_nat.simps) simp
      with n 1(2) have a: "str_nat (n div 10) = str_nat (m div 10)"
        and b: "digit_char (n mod 10) = digit_char (m mod 10)" by auto
      from 1(1)[OF False a] have "n div 10 = m div 10" .
      moreover from b have "n mod 10 = m mod 10" using digit_char_inj[of "n mod 10" "m mod 10"] by simp
      ultimately show ?thesis by (metis div_mult_mod_eq)
    qed
  qed
qed

lemma prefix_key_inj:
  assumes "CHR ''_'' \<notin> set a" "CHR ''_'' \<notin> set b" "a @ ''_'' @ s = b @ ''_'' @ t"
  shows "a = b \<and> s = t"
proof -
  have "takeWhile (\<lambda>c. c \<noteq> CHR ''_'') (a @ ''_'' @ s) = a"
    using assms(1) by (induction a) auto
  moreover have "takeWhile (\<lambda>c. c \<noteq> CHR ''_'') (b @ ''_'' @ t) = b"
    using assms(2) by (induction b) auto
  ultimately have "a = b" using assms(3) by simp
  with assms(3) show ?thesis by simp
qed

lemma length_cumcount_from: "length (cumcount_from seen ks) = length ks"
  by (induction ks arbitrary: seen) auto

lemma cumcount_from_ge:
  "(n, k) \<in> set (zip (cumcount_from seen ks) ks) \<Longrightarrow> count_list seen k \<le> n"
proof (induction ks arbitrary: seen)
  case Nil
  then show ?case by simp
next
  case (Cons a ks)
  from Cons.prems have "(n, k) = (count_list seen a, a) \<or> (n, k) \<in> set (zip (cumcount_from (seen @ [a]) ks) ks)"
    by simp
  then show ?case
  proof
    assume "(n, k) = (count_list seen a, a)" then show ?thesis by simp
  next
    assume "(n, k) \<in> set (zip (cumcount_from (seen @ [a]) ks) ks)"
    from Cons.IH[OF this] show ?thesis by (simp split: if_splits)
  qed
qed

lemma distinct_cumcount_from: "distinct (zip (cumcount_from seen ks) ks)"
proof (induction ks arbitrary: seen)
  case Nil
  then show ?case by simp
next
  case (Cons a ks)
  have "(count_list seen a, a) \<notin> set (zip (cumcount_from (seen @ [a]) ks) ks)"
  proof
    assume "(count_list seen a, a) \<in> set (zip (cumcount_from (seen @ [a]) ks) ks)"
    from cumcount_from_ge[OF this] show False by simp
  qed
  with Cons.IH[of "seen @ [a]"] show ?case by simp
qed

section \<open>Properties of frames, feedback and orders\<close>

lemma col_Inr: "col df c = Inr vs \<Longrightarrow> vs = map (\<lambda>r. r c) (rows df) \<and> c \<in> set (columns df)"
  by (auto simp: col_def split: if_splits)

lemma length_rows_set_col:
  "length vs = length (rows df) \<Longrightarrow> length (rows (set_col df c vs)) = length (rows df)"
  by (simp add: set_col_def)

lemma map_upd_zip_same:
  "length vs = length xs \<Longrightarrow> map (\<lambda>r. r c) (map (\<lambda>(r, v). r(c := v)) (zip xs vs)) = vs"
  by (induction vs xs rule: list_induct2) auto

lemma map_upd_zip_other:
  "length vs = length xs \<Longrightarrow> c \<noteq> c' \<Longrightarrow>
   map (\<lambda>r. r c) (map (\<lambda>(r, v). r(c' := v)) (zip xs vs)) = map (\<lambda>r. r c) xs"
  by (induction vs xs rule: list_induct2) auto

lemma col_set_col_same:
  "length vs = length (rows df) \<Longrightarrow> map (\<lambda>r. r c) (rows (set_col df c vs)) = vs"
  by (simp add: set_col_def map_upd_zip_same del: map_map)

lemma col_set_col_other:
  "length vs = length (rows df) \<Longrightarrow> c \<noteq> c' \<Longrightarrow>
   map (\<lambda>r. r c) (rows (set_col df c' vs)) = map (\<lambda>r. r c) (rows df)"
  by (simp add: set_col_def map_upd_zip_other del: map_map)

lemma sequence_length: "sequence xs = Inr vs \<Longrightarrow> length vs = length xs"
  by (induction xs arbitrary: vs) (auto split: sum.splits)

lemma length_rows_transform_date_columns:
  "length (rows (transform_date_columns pd df)) = length (rows df)"
  by (simp add: transform_date_columns_def)

lemma col_transform_date_columns:
  "\<not> is_date_column c \<Longrightarrow>
   map (\<lambda>r. r c) (rows (transform_date_columns pd df)) = map (\<lambda>r. r c) (rows df)"
  by (simp add: transform_date_columns_def)

lemma feedback_id_not_date: "\<not> is_date_column ''feedback_id''"
  by code_simp

lemma synth_key_inj:
  assumes "synth_key n (astype_str pd a) = synth_key m (astype_str pd b)"
  shows "n = m \<and> astype_str pd a = astype_str pd b"
proof -
  obtain s where s: "astype_str pd a = Str s" by (cases a) (auto simp: astype_str_def)
  obtain t where t: "astype_str pd b = Str t" by (cases b) (auto simp: astype_str_def)
  from assms s t have "str_nat n @ ''_'' @ s = str_nat m @ ''_'' @ t"
    by (simp add: synth_key_def)
  from prefix_key_inj[OF str_nat_no_underscore str_nat_no_underscore this]
  show ?thesis using s t str_nat_inj by auto
qed

lemma distinct_synth_keys:
  "distinct (map (\<lambda>(n, k). synth_key n k) (zip (cumcount (map (astype_str pd) xs)) (map (astype_str pd) xs)))"
proof -
  let ?ks = "map (astype_str pd) xs"
  have "inj_on (\<lambda>(n, k). synth_key n k) (set (zip (cumcount ?ks) ?ks))"
  proof (rule inj_onI)
    fix p q
    assume p: "p \<in> set (zip (cumcount ?ks) ?ks)" and q: "q \<in> set (zip (cumcount ?ks) ?ks)"
      and e: "(case p of (n, k) \<Rightarrow> synth_key n k) = (case q of (n, k) \<Rightarrow> synth_key n k)"
    obtain n k where pk: "p = (n, k)" by (cases p)
    obtain m l where ql: "q = (m, l)" by (cases q)
    from p pk have "k \<in> set ?ks" by (auto dest: set_zip_rightD)
    then obtain a where a: "k = astype_str pd a" by auto
    from q ql have "l \<in> set ?ks" by (auto dest: set_zip_rightD)
    then obtain b where b: "l = astype_str pd b" by auto
    from e pk ql a b synth_key_inj[of n pd a m b] show "p = q" by simp
  qed
  then show ?thesis
    by (simp add: distinct_map cumcount_def distinct_cumcount_from)
qed

lemma transform_feedback_table_keys:
  assumes "transform_feedback_table pd df = Inr out"
  shows "length (rows out) = length (rows df)"
    and "map (\<lambda>r. r ''feedback_id'') (rows out) =
         map (\<lambda>(n, k). synth_key n k) (zip (cumcount (feedback_keys pd df)) (feedback_keys pd df))"
proof -
  let ?ks = "feedback_keys pd df"
  define df1 where "df1 = set_col df ''feedback_id'' ?ks"
  from assms obtain ids where ids: "col df ''feedback_id'' = Inr ids"
    by (auto simp: transform_feedback_table_def split: sum.splits)
  then have ids_eq: "map (astype_str pd) ids = ?ks"
    by (auto simp: feedback_keys_def dest: col_Inr)
  from assms ids ids_eq obtain scores where sc: "col df1 ''feedback_score'' = Inr scores"
    by (auto simp: transform_feedback_table_def df1_def Let_def split: sum.splits)
  from assms ids ids_eq sc obtain scores' where sq: "sequence (map (astype_int pd) scores) = Inr scores'"
    by (auto simp: transform_feedback_table_def df1_def Let_def split: sum.splits)
  define df2 where "df2 = set_col df1 ''feedback_score'' scores'"
  define keys where "keys = map (\<lambda>r. r ''feedback_id'') (rows df2)"
  define df3 where "df3 = set_col df2 ''feedback_id'' (map (\<lambda>(n, k). synth_key n k) (zip (cumcount keys) keys))"
  from assms ids ids_eq sc sq have out: "out = transform_date_columns pd df3"
    by (simp add: transform_feedback_table_def df1_def df2_def df3_def keys_def Let_def)
  have l1: "length (rows df1) = length (rows df)"
    unfolding df1_def by (rule length_rows_set_col) (simp add: feedback_keys_def)
  have k1: "map (\<lambda>r. r ''feedback_id'') (rows df1) = ?ks"
    unfolding df1_def by (rule col_set_col_same) (simp add: feedback_keys_def)
  have ls: "length scores' = length (rows df1)"
    using sequence_length[OF sq] col_Inr[OF sc] by simp
  have l2: "length (rows df2) = length (rows df)"
    unfolding df2_def using length_rows_set_col[OF ls] l1 by simp
  have k2: "keys = ?ks"
    unfolding keys_def df2_def using col_set_col_other[OF ls, of "''feedback_id''" "''feedback_score''"] k1
    by simp
  have lk: "length (map (\<lambda>(n, k). synth_key n k) (zip (cumcount keys) keys)) = length (rows df2)"
    using k2 l2 by (simp add: cumcount_def length_cumcount_from feedback_keys_def)
  show "length (rows out) = length (rows df)"
    unfolding out df3_def using length_rows_set_col[OF lk] l2
    by (simp add: length_rows_transform_date_columns)
  show "map (\<lambda>r. r ''feedback_id'') (rows out) =
         map (\<lambda>(n, k). synth_key n k) (zip (cumcount ?ks) ?ks)"
    unfolding out using col_transform_date_columns[OF feedback_id_not_date]
      col_set_col_same[OF lk] k2 by (simp add: df3_def)
qed


lemma count_list_map_filter:
  "count_list (map f xs) k = length (filter (\<lambda>r. f r = k) xs)"
  by (induction xs) auto

lemma feedback_column_not_order_id: "feedback_column df \<noteq> ''order_id''"
  by (simp add: feedback_column_def)

lemma merge_row_order_id:
  "fc \<noteq> ''order_id'' \<Longrightarrow> r \<in> set (merge_row fc R l) \<Longrightarrow> r ''order_id'' = l ''order_id''"
  by (auto simp: merge_row_def split: list.splits)

lemma merge_row_order_ids:
  assumes "fc \<noteq> ''order_id''"
  shows "map (\<lambda>r. r ''order_id'') (merge_row fc R l) =
         replicate (max 1 (count_list (map (\<lambda>r. r ''order_id'') R) (l ''order_id''))) (l ''order_id'')"
proof (cases "filter (\<lambda>r. r ''order_id'' = l ''order_id'') R")
  case Nil
  then show ?thesis using assms by (simp add: merge_row_def count_list_map_filter)
next
  case (Cons m ms)
  have "map (\<lambda>r. r ''order_id'') (merge_row fc R l) =
        map (\<lambda>m. l ''order_id'') (filter (\<lambda>r. r ''order_id'' = l ''order_id'') R)"
    using assms Cons by (simp add: merge_row_def)
  also have "\<dots> = replicate (length (filter (\<lambda>r. r ''order_id'' = l ''order_id'') R)) (l ''order_id'')"
    by (simp add: map_replicate_const)
  finally show ?thesis using Cons by (simp add: count_list_map_filter)
qed

lemma merge_row_null:
  assumes "r \<in> set (merge_row fc R l)" "l ''order_id'' \<notin> set (map (\<lambda>r. r ''order_id'') R)"
  shows "r fc = Null"
proof -
  from assms(2) have "filter (\<lambda>r. r ''order_id'' = l ''order_id'') R = []"
    by (force simp: filter_empty_conv image_iff)
  with assms(1) show ?thesis by (simp add: merge_row_def)
qed

lemma col_rename_other:
  "c \<noteq> new \<Longrightarrow> map (\<lambda>r. r c) (rows (rename old new df)) = map (\<lambda>r. r c) (rows df)"
  by (simp add: rename_def)

lemma feedback_column_rename:
  "new \<noteq> ''feedback_id'' \<Longrightarrow> old \<noteq> ''feedback_id'' \<Longrightarrow>
   feedback_column (rename old new df) = feedback_column df"
  by (auto simp: feedback_column_def rename_def)

lemma order_id_in_rename:
  "new \<noteq> ''order_id'' \<Longrightarrow> old \<noteq> ''order_id'' \<Longrightarrow>
   ''order_id'' \<in> set (columns (rename old new df)) \<longleftrightarrow> ''order_id'' \<in> set (columns df)"
  by (auto simp: rename_def)

lemma astype_str_cols_other:
  "astype_str_cols pd cs df = Inr df' \<Longrightarrow>
   columns df' = columns df \<and> length (rows df') = length (rows df) \<and>
   (c \<notin> set cs \<longrightarrow> map (\<lambda>r. r c) (rows df') = map (\<lambda>r. r c) (rows df))"
proof (induction cs arbitrary: df)
  case Nil
  then show ?case by simp
next
  case (Cons a cs)
  from Cons.prems obtain vs where vs: "col df a = Inr vs"
    and rest: "astype_str_cols pd cs (set_col df a (map (astype_str pd) vs)) = Inr df'"
    by (auto split: sum.splits)
  from col_Inr[OF vs] have a: "a \<in> set (columns df)" and l: "length (map (astype_str pd) vs) = length (rows df)"
    by auto
  from Cons.IH[OF rest] a length_rows_set_col[OF l, of a] col_set_col_other[OF l, of c a]
  show ?case by (auto simp: set_col_def)
qed

lemma astype_str_cols_order_id:
  assumes "astype_str_cols pd [''order_id'', ''user_id'', ''order_status''] df = Inr df'"
  shows "map (\<lambda>r. r ''order_id'') (rows df') = map (\<lambda>r. astype_str pd (r ''order_id'')) (rows df)"
    and "columns df' = columns df"
proof -
  from assms obtain vs where vs: "col df ''order_id'' = Inr vs"
    and rest: "astype_str_cols pd [''user_id'', ''order_status''] (set_col df ''order_id'' (map (astype_str pd) vs)) = Inr df'"
    by (auto split: sum.splits)
  from col_Inr[OF vs] have a: "''order_id'' \<in> set (columns df)"
    and v: "vs = map (\<lambda>r. r ''order_id'') (rows df)" by auto
  have l: "length (map (astype_str pd) vs) = length (rows df)" using v by simp
  from astype_str_cols_other[OF rest, of "''order_id''"] col_set_col_same[OF l, of "''order_id''"]
  show "map (\<lambda>r. r ''order_id'') (rows df') = map (\<lambda>r. astype_str pd (r ''order_id'')) (rows df)"
    using v by (simp add: comp_def)
  from astype_str_cols_other[OF rest, of "''order_id''"] a
  show "columns df' = columns df" by (simp add: set_col_def)
qed

lemma order_id_not_date: "\<not> is_date_column ''order_id''"
  by code_simp

lemma transform_orders_table_rows:
  assumes "transform_orders_table pd df fb = Inr out"
  shows "\<exists>L. map (\<lambda>r. r ''order_id'') L = order_keys pd df \<and>
             rows out = concat (map (merge_row (feedback_column df) (rows fb)) L)"
proof -
  let ?d0 = "rename ''user_name'' ''user_id'' df"
  from assms obtain df1 where
    df1: "astype_str_cols pd [''order_id'', ''user_id'', ''order_status''] ?d0 = Inr df1"
    and m: "merge_left (transform_date_columns pd df1) fb = Inr out"
    by (auto simp: transform_orders_table_def split: sum.splits)
  let ?d2 = "transform_date_columns pd df1"
  let ?L = "rows (rename ''feedback_id'' ''feedback_id_x'' ?d2)"
  have c2: "columns ?d2 = columns ?d0"
    using astype_str_cols_order_id(2)[OF df1] by (simp add: transform_date_columns_def)
  have fc: "feedback_column ?d2 = feedback_column df"
    using c2 feedback_column_rename[of "''user_id''" "''user_name''" df]
    by (simp add: feedback_column_def)
  have "map (\<lambda>r. r ''order_id'') ?L = map (\<lambda>r. r ''order_id'') (rows ?d2)"
    by (rule col_rename_other) simp
  also have "\<dots> = map (\<lambda>r. r ''order_id'') (rows df1)"
    by (rule col_transform_date_columns[OF order_id_not_date])
  also have "\<dots> = map (\<lambda>r. astype_str pd (r ''order_id'')) (rows ?d0)"
    by (rule astype_str_cols_order_id(1)[OF df1])
  also have "\<dots> = order_keys pd df"
    using col_rename_other[of "''order_id''" "''user_id''" "''user_name''" df]
    by (simp add: order_keys_def rename_def comp_def)
  finally have k: "map (\<lambda>r. r ''order_id'') ?L = order_keys pd df" .
  from m have "rows out = concat (map (merge_row (feedback_column ?d2) (rows fb)) ?L)"
    by (auto simp: merge_left_def Let_def split: if_splits)
  with fc k show ?thesis by auto
qed


lemma distinct_count_list_le: "distinct xs \<Longrightarrow> count_list xs k \<le> 1"
  by (induction xs) (auto simp: count_list_0_iff)

text \<open>
  Claim C6, as the code has it: when the feedback transformer returns a table, the
  table has as many rows as the raw feedback set, each synthesized key is the
  zero-based running count of the row's original key (as text), an underscore and the
  original key, in this order (the counter is put in front of the key, not after
  it), and the synthesized keys are pairwise distinct.
\<close>

theorem feedback_keys_counter_prefixed:
  assumes "transform_feedback_table pd df = Inr out"
  shows "length (rows out) = length (rows df) \<and>
         feedback_ids out =
           map (\<lambda>(n, k). synth_key n k) (zip (cumcount (feedback_keys pd df)) (feedback_keys pd df)) \<and>
         distinct (feedback_ids out)"
  using transform_feedback_table_keys[OF assms] distinct_synth_keys[of pd "map (\<lambda>r. r ''feedback_id'') (rows df)"]
  by (simp add: feedback_ids_def feedback_keys_def comp_def)

theorem feedback_keys_counter_prefixed_witness:
  "\<exists>out. transform_feedback_table plain_pandas feedback_example = Inr out \<and>
         length (rows out) = 2 \<and> feedback_ids out = [Str ''0_ab'', Str ''1_ab''] \<and>
         distinct (feedback_ids out)"
proof -
  have "column_of ''feedback_id'' (transform_feedback_table plain_pandas feedback_example)
        = Inr [Str ''0_ab'', Str ''1_ab'']"
    by code_simp
  then obtain out where out: "transform_feedback_table plain_pandas feedback_example = Inr out"
    by (auto simp: column_of_def split: sum.splits)
  have l: "length (rows feedback_example) = 2" by (simp add: feedback_example_def)
  have k: "map (\<lambda>(n, k). synth_key n k)
             (zip (cumcount (feedback_keys plain_pandas feedback_example))
                  (feedback_keys plain_pandas feedback_example)) = [Str ''0_ab'', Str ''1_ab'']"
    by code_simp
  from feedback_keys_counter_prefixed[OF out] l k out show ?thesis by auto
qed

theorem feedback_key_suffix_counterexample:
  "column_of ''feedback_id'' (transform_feedback_table plain_pandas feedback_example)
     = Inr [Str ''0_ab'', Str ''1_ab''] \<and> \<not> prefix ''ab'' ''0_ab'' \<and> \<not> prefix ''ab'' ''1_ab''"
  by code_simp

text \<open>
  Claim C2, as the code has it: when the order transformer returns a table, every
  order row appears once for each feedback row of the same order id, and exactly once
  if there is none; a row whose order id has no feedback row carries a missing
  feedback key; and the table has exactly one row per order row when no two feedback
  rows share an order id.
\<close>

theorem orders_fan_out_per_feedback:
  assumes "transform_orders_table pd df fb = Inr out"
  shows "order_ids out = rows_per_order (order_ids fb) (order_keys pd df) \<and>
         (\<forall>r \<in> set (rows out). r ''order_id'' \<notin> set (order_ids fb) \<longrightarrow> r (feedback_column df) = Null) \<and>
         (distinct (order_ids fb) \<longrightarrow> order_ids out = order_keys pd df)"
proof -
  from transform_orders_table_rows[OF assms] obtain L where
    L: "map (\<lambda>r. r ''order_id'') L = order_keys pd df"
    and out: "rows out = concat (map (merge_row (feedback_column df) (rows fb)) L)" by auto
  have "order_ids out = concat (map (\<lambda>l. map (\<lambda>r. r ''order_id'') (merge_row (feedback_column df) (rows fb) l)) L)"
    by (simp add: order_ids_def out map_concat comp_def)
  also have "\<dots> = concat (map (\<lambda>l. replicate (max 1 (count_list (order_ids fb) (l ''order_id''))) (l ''order_id'')) L)"
    using merge_row_order_ids[OF feedback_column_not_order_id] by (simp add: order_ids_def)
  also have "\<dots> = rows_per_order (order_ids fb) (map (\<lambda>r. r ''order_id'') L)"
    by (simp add: rows_per_order_def comp_def)
  finally have a: "order_ids out = rows_per_order (order_ids fb) (order_keys pd df)"
    using L by simp
  have b: "\<forall>r \<in> set (rows out). r ''order_id'' \<notin> set (order_ids fb) \<longrightarrow> r (feedback_column df) = Null"
  proof (intro ballI impI)
    fix r assume r: "r \<in> set (rows out)" and n: "r ''order_id'' \<notin> set (order_ids fb)"
    from r out obtain l where l: "l \<in> set L" and rl: "r \<in> set (merge_row (feedback_column df) (rows fb) l)"
      by auto
    from merge_row_order_id[OF feedback_column_not_order_id rl] n
    have "l ''order_id'' \<notin> set (map (\<lambda>r. r ''order_id'') (rows fb))" by (simp add: order_ids_def)
    from merge_row_null[OF rl this] show "r (feedback_column df) = Null" .
  qed
  have c: "distinct (order_ids fb) \<longrightarrow> order_ids out = order_keys pd df"
  proof
    assume d: "distinct (order_ids fb)"
    have "\<And>k. max 1 (count_list (order_ids fb) k) = 1"
    proof -
      fix k
      show "max 1 (count_list (order_ids fb) k) = 1"
        using distinct_count_list_le[OF d, of k] by linarith
    qed
    then have "rows_per_order (order_ids fb) (order_keys pd df) = concat (map (\<lambda>k. [k]) (order_keys pd df))"
      by (simp add: rows_per_order_def)
    also have "\<dots> = order_keys pd df" by (induction "order_keys pd df") auto
    finally show "order_ids out = order_keys pd df" using a by simp
  qed
  from a b c show ?thesis by blast
qed

theorem orders_fan_out_per_feedback_witness:
  "\<exists>out. transform_orders_table plain_pandas orders_example feedback_d_example = Inr out \<and>
         order_ids out = [Str ''O1'', Str ''O2''] \<and> (rows out ! 1) ''feedback_id'' = Null"
proof -
  have "column_of ''order_id'' (transform_orders_table plain_pandas orders_example feedback_d_example)
        = Inr [Str ''O1'', Str ''O2'']"
    by code_simp
  then obtain out where out: "transform_orders_table plain_pandas orders_example feedback_d_example = Inr out"
    by (auto simp: column_of_def split: sum.splits)
  have f: "order_ids feedback_d_example = [Str ''O1'']" by code_simp
  have d: "distinct (order_ids feedback_d_example)" unfolding f by simp
  have k: "order_keys plain_pandas orders_example = [Str ''O1'', Str ''O2'']" by code_simp
  have c: "feedback_column orders_example = ''feedback_id''" by code_simp
  note t = orders_fan_out_per_feedback[OF out]
  from t d have "order_ids out = order_keys plain_pandas orders_example" by blast
  with k have ids: "order_ids out = [Str ''O1'', Str ''O2'']" by simp
  then have "length (rows out) = 2" and o2: "(rows out ! 1) ''order_id'' = Str ''O2''"
    unfolding order_ids_def by (auto simp: map_eq_Cons_conv)
  then have "rows out ! 1 \<in> set (rows out)" by simp
  with t o2 f c have "(rows out ! 1) ''feedback_id'' = Null" by auto
  with out ids show ?thesis by blast
qed

theorem one_row_per_order_counterexample:
  "column_of ''order_id'' (orders_after_feedback plain_pandas orders_example feedback_example)
     = Inr [Str ''O1'', Str ''O1'', Str ''O2'']"
  by code_simp

section \<open>Keys of the dimension tables\<close>

lemma distinct_group_keys: "distinct (group_keys ks)"
  by (simp add: group_keys_def)

lemma set_group_keys: "set (group_keys ks) = {k. Some k \<in> set ks}"
  by (force simp: group_keys_def image_iff)

lemma sequence_Inr:
  "sequence xs = Inr vs \<Longrightarrow> list_all2 (\<lambda>x v. x = Inr v) xs vs"
  by (induction xs arbitrary: vs) (auto split: sum.splits)

lemma payments_agg_id: "payments_agg k g = Inr v \<Longrightarrow> payment_id v = Some k"
  by (auto simp: payments_agg_def split: if_splits)


lemma transform_payments_table_rows:
  assumes "transform_payments_table pd df = Inr out"
  shows "list_all2 (\<lambda>k v. payments_agg k (group_of pay_order_id k (map (payments_prepare pd) df)) = Inr v)
           (group_keys (map (\<lambda>r. astype_text (pay_order_id r)) df)) out"
proof -
  have k: "map pay_order_id (map (payments_prepare pd) df) = map (\<lambda>r. astype_text (pay_order_id r)) df"
    by (simp add: payments_prepare_def)
  from assms have "list_all2 (\<lambda>x v. x = Inr v)
      (map (\<lambda>k. payments_agg k (group_of pay_order_id k (map (payments_prepare pd) df)))
           (group_keys (map (\<lambda>r. astype_text (pay_order_id r)) df))) out"
    unfolding transform_payments_table_def Let_def k by (rule sequence_Inr)
  then show ?thesis by (simp add: list_all2_map1)
qed

lemma transform_payments_table_ids:
  assumes "transform_payments_table pd df = Inr out"
  shows "map payment_id out = map Some (group_keys (map (\<lambda>r. astype_text (pay_order_id r)) df))"
proof -
  have "list_all2 (\<lambda>k v. Some k = payment_id v)
          (group_keys (map (\<lambda>r. astype_text (pay_order_id r)) df)) out"
    by (rule list_all2_mono[OF transform_payments_table_rows[OF assms]]) (simp add: payments_agg_id)
  then have "map Some (group_keys (map (\<lambda>r. astype_text (pay_order_id r)) df)) = map payment_id out"
    by (simp add: list_all2_conv_all_nth list_eq_iff_nth_eq)
  then show ?thesis by simp
qed

lemma transform_users_table_ids:
  "map user_id (transform_users_table pd df) = map Some (group_keys (map (\<lambda>r. astype_text (user_name r)) df))"
  by (simp add: transform_users_table_def users_agg_def users_prepare_def comp_def Let_def)

lemma distinct_map_Some: "distinct xs \<Longrightarrow> distinct (map Some xs)"
  by (simp add: distinct_map)

lemma synth_key_not_Null: "synth_key n (astype_str pd v) \<noteq> Null"
  by (cases v) (auto simp: synth_key_def astype_str_def)

lemma synth_keys_not_Null:
  "Null \<notin> set (map (\<lambda>(n, k). synth_key n k) (zip ns (map (astype_str pd) xs)))"
proof
  assume "Null \<in> set (map (\<lambda>(n, k). synth_key n k) (zip ns (map (astype_str pd) xs)))"
  then obtain n k where nk: "(n, k) \<in> set (zip ns (map (astype_str pd) xs))" and e: "synth_key n k = Null"
    by auto
  from nk have "k \<in> set (map (astype_str pd) xs)" by (rule set_zip_rightD)
  then obtain v where "k = astype_str pd v" by auto
  with e synth_key_not_Null show False by blast
qed

lemma astype_text_not_None: "astype_text v \<noteq> None"
  by (simp add: astype_text_def split: option.splits)

lemma None_notin_astype_text: "None \<notin> set (map (\<lambda>r. astype_text (f r)) xs)"
  by (induction xs) (auto simp: astype_text_def split: option.splits)

text \<open>
  Claim C1, as the code has it: the users table has pairwise distinct, non-missing
  keys for every input; so have the payments and the feedback table whenever their
  transformer returns one. The products and the sellers transformer merge nothing:
  their key column is the staged key column as text, row by row, so it has no
  missing value and repeats whatever key the staged rows repeat.
\<close>

theorem dimension_keys:
  "distinct (map user_id (transform_users_table pd us)) \<and>
   None \<notin> set (map user_id (transform_users_table pd us)) \<and>
   (transform_payments_table pd ps = Inr pout \<longrightarrow>
      distinct (map payment_id pout) \<and> None \<notin> set (map payment_id pout)) \<and>
   (transform_feedback_table pd fb = Inr fout \<longrightarrow>
      distinct (feedback_ids fout) \<and> Null \<notin> set (feedback_ids fout)) \<and>
   map product_id (transform_products_table pd pr) = map (\<lambda>r. astype_text (product_id r)) pr \<and>
   None \<notin> set (map product_id (transform_products_table pd pr)) \<and>
   map seller_id (transform_sellers_table pd se) = map (\<lambda>r. astype_text (raw_seller_id r)) se \<and>
   None \<notin> set (map seller_id (transform_sellers_table pd se))"
proof -
  have u: "distinct (map user_id (transform_users_table pd us)) \<and>
           None \<notin> set (map user_id (transform_users_table pd us))"
    unfolding transform_users_table_ids by (auto simp: distinct_map_Some distinct_group_keys)
  have p: "transform_payments_table pd ps = Inr pout \<longrightarrow>
      distinct (map payment_id pout) \<and> None \<notin> set (map payment_id pout)"
  proof
    assume "transform_payments_table pd ps = Inr pout"
    from transform_payments_table_ids[OF this]
    show "distinct (map payment_id pout) \<and> None \<notin> set (map payment_id pout)"
      by (auto simp: distinct_map_Some distinct_group_keys)
  qed
  have f: "transform_feedback_table pd fb = Inr fout \<longrightarrow>
      distinct (feedback_ids fout) \<and> Null \<notin> set (feedback_ids fout)"
  proof
    assume a: "transform_feedback_table pd fb = Inr fout"
    have k: "feedback_keys pd fb = map (astype_str pd) (map (\<lambda>r. r ''feedback_id'') (rows fb))"
      by (simp add: feedback_keys_def comp_def)
    from transform_feedback_table_keys(2)[OF a]
    show "distinct (feedback_ids fout) \<and> Null \<notin> set (feedback_ids fout)"
      unfolding feedback_ids_def k using distinct_synth_keys synth_keys_not_Null by metis
  qed
  have pr: "map product_id (transform_products_table pd pr) = map (\<lambda>r. astype_text (product_id r)) pr"
    by (simp add: transform_products_table_def comp_def)
  have se: "map seller_id (transform_sellers_table pd se) = map (\<lambda>r. astype_text (raw_seller_id r)) se"
    by (simp add: transform_sellers_table_def comp_def)
  have n1: "None \<notin> set (map product_id (transform_products_table pd pr))"
    unfolding pr by (rule None_notin_astype_text)
  have n2: "None \<notin> set (map seller_id (transform_sellers_table pd se))"
    unfolding se by (rule None_notin_astype_text)
  from u p f pr se n1 n2 show ?thesis by blast
qed

theorem duplicate_product_key_counterexample:
  "map product_id (transform_products_table plain_pandas products_example) = [Some ''p1'', Some ''p1'']"
  by code_simp

theorem dimension_keys_witness:
  "distinct (map user_id (transform_users_table plain_pandas users_example)) \<and>
   (\<exists>pout. transform_payments_table plain_pandas payments_example = Inr pout \<and>
      distinct (map payment_id pout) \<and> None \<notin> set (map payment_id pout)) \<and>
   (\<exists>fout. transform_feedback_table plain_pandas feedback_example = Inr fout \<and>
      distinct (feedback_ids fout) \<and> Null \<notin> set (feedback_ids fout))"
proof -
  have "map payment_id (case transform_payments_table plain_pandas payments_example of Inr v \<Rightarrow> v | Inl e \<Rightarrow> [])
        = [Some ''O1'', Some ''O2'']"
    by code_simp
  then obtain pout where p: "transform_payments_table plain_pandas payments_example = Inr pout"
    by (cases "transform_payments_table plain_pandas payments_example") auto
  have "column_of ''feedback_id'' (transform_feedback_table plain_pandas feedback_example)
        = Inr [Str ''0_ab'', Str ''1_ab'']"
    by code_simp
  then obtain fout where f: "transform_feedback_table plain_pandas feedback_example = Inr fout"
    by (auto simp: column_of_def split: sum.splits)
  from dimension_keys[where pd = plain_pandas and us = users_example and ps = payments_example
      and pout = pout and fb = feedback_example and fout = fout and pr = products_example
      and se = sellers_example] p f
  show ?thesis by blast
qed

text \<open>
  Claim C7 at an orders table whose \<^verbatim>\<open>order_date\<close> and \<^verbatim>\<open>estimated_time_delivery\<close>
  columns hold the same unparseable text: the first becomes the missing value, the
  second is handed on as the text it was, because its name has no \<^verbatim>\<open>_date\<close> in it.
\<close>

theorem estimated_delivery_not_coerced:
  "column_of ''order_date'' (orders_after_feedback plain_pandas orders_example feedback_example)
     = Inr [Null, Null, Ts 0] \<and>
   column_of ''estimated_time_delivery'' (orders_after_feedback plain_pandas orders_example feedback_example)
     = Inr [Str ''soon'', Str ''soon'', Ts 0] \<and>
   \<not> is_date_column ''estimated_time_delivery''"
  by code_simp

section \<open>Payments: merged values\<close>




section \<open>Order lines: grouping, quantities and sums\<close>




lemma split_from_no_sep:
  "c0 \<notin> set x \<Longrightarrow> split_from (c0 # sep) acc x = [rev acc @ x]"
  by (induction x arbitrary: acc) auto

lemma split_from_sep:
  "c0 \<notin> set x \<Longrightarrow>
   split_from (c0 # sep) acc (x @ (c0 # sep) @ rest) = (rev acc @ x) # split_from (c0 # sep) [] rest"
  by (induction x arbitrary: acc) auto




lemma count_list_eq_0: "count_list xs c = 0 \<Longrightarrow> c \<notin> set xs"
  by (simp add: count_list_0_iff)





















section \<open>The calendar tables are complete\<close>

lemma start_date_eval: "start_date = 16900"
  by (simp add: start_date_def days_from_civil_def)

lemma end_date_eval: "end_date = 17821"
  by (simp add: end_date_def days_from_civil_def)

lemma length_date_range: "length (date_range a b step) = nat ((b - a) div step + 1)"
  by (simp add: date_range_def)

lemma distinct_date_range: "0 < step \<Longrightarrow> distinct (date_range a b step)"
  by (auto simp: date_range_def distinct_map inj_on_def)

lemma set_date_range_days: "set (date_range a b 1) = {a..b}"
proof -
  have img: "set (date_range a b 1) = (\<lambda>k. a + int k) ` {0 ..< nat (b - a + 1)}"
    by (simp add: date_range_def)
  show ?thesis unfolding img
  proof (intro equalityI subsetI)
    fix x assume "x \<in> (\<lambda>k. a + int k) ` {0 ..< nat (b - a + 1)}"
    then obtain k where "k < nat (b - a + 1)" "x = a + int k" by auto
    then show "x \<in> {a..b}" by simp
  next
    fix x assume x: "x \<in> {a..b}"
    then have k: "nat (x - a) \<in> {0 ..< nat (b - a + 1)}" by auto
    from x have "x = a + int (nat (x - a))" by simp
    with k show "x \<in> (\<lambda>k. a + int k) ` {0 ..< nat (b - a + 1)}" by (rule rev_image_eqI)
  qed
qed

lemma Date_date_row_of: "Date (date_row_of z) = z"
  by (simp add: date_row_of_def split: prod.split)

lemma dates_of_date_d: "map Date date_d = date_range start_date end_date 1"
  by (simp add: date_d_def comp_def Date_date_row_of)

lemma minute_div: "(x * 60) div 3600 = x div 60" for x :: int
proof -
  have "(x * 60) div (60 * 60) = ((x * 60) div 60) div 60"
    by (rule zdiv_zmult2_eq) simp
  then show ?thesis by simp
qed

lemma minute_mod: "((x * 60) mod 3600) div 60 = x mod 60" for x :: int
proof -
  have "(x * 60) mod (60 * 60) = (x mod 60) * 60" by (rule mod_mult_mult2)
  then show ?thesis by simp
qed

lemma minutes_of_time_rows:
  "map (\<lambda>r. (Hour r, Minute r)) (map time_row_of (date_range 0 b 60)) =
   map (\<lambda>k. (int k div 60, int k mod 60)) [0 ..< nat (b div 60 + 1)]"
  by (simp add: date_range_def time_row_of_def comp_def Let_def minute_div minute_mod)

lemma seconds_of_time_rows: "list_all (\<lambda>r. Second r = 0) (map time_row_of (date_range 0 b 60))"
  by (simp add: date_range_def time_row_of_def list_all_iff Let_def)

lemma distinct_minutes: "distinct (map (\<lambda>k. (int k div 60, int k mod 60)) [0 ..< n])"
proof -
  have "inj_on (\<lambda>k. (int k div 60, int k mod 60)) (set [0 ..< n])"
  proof (rule inj_onI)
    fix x y assume "(int x div 60, int x mod 60) = (int y div 60, int y mod 60)"
    then have e: "int x div 60 = int y div 60" "int x mod 60 = int y mod 60" by simp_all
    have "int x = int x div 60 * 60 + int x mod 60" by (rule div_mult_mod_eq[symmetric])
    also have "\<dots> = int y div 60 * 60 + int y mod 60" by (simp only: e)
    also have "\<dots> = int y" by (rule div_mult_mod_eq)
    finally show "x = y" by (simp only: of_nat_eq_iff)
  qed
  with distinct_upt show ?thesis by (simp only: distinct_map simp_thms)
qed

lemma set_minutes:
  assumes "n = 1440"
  shows "set (map (\<lambda>k. (int k div 60, int k mod 60)) [0 ..< n]) = {0..23} \<times> {0..59}"
proof -
  have img: "set (map (\<lambda>k. (int k div 60, int k mod 60)) [0 ..< n]) =
             (\<lambda>k. (int k div 60, int k mod 60)) ` {0 ..< n}"
    by (simp only: set_map set_upt)
  show ?thesis unfolding img
  proof (intro equalityI subsetI)
    fix p assume "p \<in> (\<lambda>k. (int k div 60, int k mod 60)) ` {0 ..< n}"
    then obtain k where k: "k < n" "p = (int k div 60, int k mod 60)" by auto
    from k(1) assms have k': "int k \<le> 1439" by linarith
    have "int k div 60 \<le> 1439 div 60" by (rule zdiv_mono1[OF k']) simp
    then have "int k div 60 \<le> 23" by simp
    moreover have "0 \<le> int k div 60" by (simp add: pos_imp_zdiv_nonneg_iff)
    moreover have "0 \<le> int k mod 60" "int k mod 60 < 60" by simp_all
    ultimately show "p \<in> {0..23} \<times> {0..59}" using k(2) by simp
  next
    fix p :: "int \<times> int" assume "p \<in> {0..23} \<times> {0..59}"
    then obtain h m where p: "p = (h, m)" "0 \<le> h" "h \<le> 23" "0 \<le> m" "m \<le> 59" by auto
    let ?k = "nat (h * 60 + m)"
    have hm: "0 \<le> h * 60 + m" "h * 60 + m < 1440" using p by linarith+
    then have ik: "int ?k = h * 60 + m" by simp
    from hm have "?k < 1440" by linarith
    with assms have kn: "?k \<in> {0 ..< n}" by simp
    have "(h * 60 + m) div 60 = h" using p by (simp add: div_pos_pos_trivial)
    moreover have "(h * 60 + m) mod 60 = m" using p by (simp add: mod_pos_pos_trivial)
    ultimately have "int ?k div 60 = h" "int ?k mod 60 = m" using ik by simp_all
    with p(1) have "p = (\<lambda>k. (int k div 60, int k mod 60)) ?k" by simp
    with kn show "p \<in> (\<lambda>k. (int k div 60, int k mod 60)) ` {0 ..< n}" by (rule rev_image_eqI)
  qed
qed

lemma length_date_d: "length date_d = 922"
  by (simp add: date_d_def length_date_range start_date_eval end_date_eval)

lemma civil_start: "civil_from_days (days_from_civil 2016 4 9) = (2016, 4, 9)"
  by code_simp

lemma civil_end: "civil_from_days (days_from_civil 2018 10 17) = (2018, 10, 17)"
  by code_simp

lemma length_times_d: "length times_d = 1440"
  by (simp add: times_d_def length_date_range)

lemma distinct_dates: "distinct (map Date date_d)"
  unfolding dates_of_date_d by (rule distinct_date_range) simp

lemma set_dates: "set (map Date date_d) = {days_from_civil 2016 4 9 .. days_from_civil 2018 10 17}"
  unfolding dates_of_date_d set_date_range_days by (simp only: start_date_def end_date_def)

lemma times_d_minutes:
  "distinct (map (\<lambda>r. (Hour r, Minute r)) times_d)"
  "set (map (\<lambda>r. (Hour r, Minute r)) times_d) = {0..23} \<times> {0..59}"
  "list_all (\<lambda>r. Second r = 0) times_d"
proof -
  have n: "nat (86399 div 60 + 1) = 1440" by simp
  show "distinct (map (\<lambda>r. (Hour r, Minute r)) times_d)"
    unfolding times_d_def minutes_of_time_rows by (rule distinct_minutes)
  show "set (map (\<lambda>r. (Hour r, Minute r)) times_d) = {0..23} \<times> {0..59}"
    unfolding times_d_def minutes_of_time_rows by (rule set_minutes[OF n])
  show "list_all (\<lambda>r. Second r = 0) times_d"
    unfolding times_d_def by (rule seconds_of_time_rows)
qed

text \<open>
  Claim C9: the date table has 922 rows, one for each day from 2016-04-09 to
  2018-10-17 and none twice; the time table has 1440 rows, one for each hour and
  minute of a day from 00:00 to 23:59 and none twice, all with second zero.
\<close>

theorem calendar_complete:
  "length date_d = 922 \<and> distinct (map Date date_d) \<and>
   set (map Date date_d) = {days_from_civil 2016 4 9 .. days_from_civil 2018 10 17} \<and>
   civil_from_days (days_from_civil 2016 4 9) = (2016, 4, 9) \<and>
   civil_from_days (days_from_civil 2018 10 17) = (2018, 10, 17) \<and>
   length times_d = 1440 \<and> distinct (map (\<lambda>r. (Hour r, Minute r)) times_d) \<and>
   set (map (\<lambda>r. (Hour r, Minute r)) times_d) = {0..23} \<times> {0..59} \<and>
   list_all (\<lambda>r. Second r = 0) times_d"
  using length_date_d distinct_dates set_dates civil_start civil_end length_times_d times_d_minutes
  by (intro conjI)

section \<open>The raw loader leaves no missing value outside datetime columns\<close>














section \<open>Derived fields of the fact table\<close>

lemma holds_on_date: "holds (on_date t d) \<longleftrightarrow> DATE t = Some (Date d)"
  by (cases "DATE t") (auto simp: holds_def on_date_def sql_eq_def)

lemma left_join_cases:
  assumes "j' \<in> set (left_join on put tbl js)"
  shows "\<exists>j \<in> set js. (j' = put j None \<and> (\<forall>m \<in> set tbl. \<not> holds (on j m))) \<or>
                        (\<exists>m \<in> set tbl. holds (on j m) \<and> j' = put j (Some m))"
proof -
  from assms obtain j where j: "j \<in> set js"
    and j': "j' \<in> set (case filter (\<lambda>m. holds (on j m)) tbl of
                          [] \<Rightarrow> [put j None] | ms \<Rightarrow> map (\<lambda>m. put j (Some m)) ms)"
    by (auto simp: left_join_def)
  show ?thesis
  proof (cases "filter (\<lambda>m. holds (on j m)) tbl")
    case Nil
    then have "\<forall>m \<in> set tbl. \<not> holds (on j m)" by (simp add: filter_empty_conv)
    with j j' Nil show ?thesis by auto
  next
    case (Cons a as)
    with j' obtain m where "m \<in> set (filter (\<lambda>m. holds (on j m)) tbl)" "j' = put j (Some m)"
      by auto
    with j show ?thesis by auto
  qed
qed

lemma left_join_preserves:
  assumes "\<forall>j \<in> set js. P j" and "\<And>j v. P j \<Longrightarrow> P (put j v)"
  shows "\<forall>j \<in> set (left_join on put tbl js). P j"
  using left_join_cases[of _ on put tbl js] assms by blast

lemma left_join_establishes:
  assumes "\<And>j. \<forall>m \<in> set tbl. \<not> holds (on j m) \<Longrightarrow> Q (put j None)"
    and "\<And>j m. m \<in> set tbl \<Longrightarrow> holds (on j m) \<Longrightarrow> Q (put j (Some m))"
  shows "\<forall>j \<in> set (left_join on put tbl js). Q j"
  using left_join_cases[of _ on put tbl js] assms by blast

lemma delivered_matched:
  "\<forall>j \<in> set (from_clause db). matched (date_tbl db) (o_delivered_date (j_o j)) (j_d2 j)"
  unfolding from_clause_def fold_simps comp_def id_apply
  apply (rule left_join_preserves)
   apply (rule left_join_preserves)
    apply (rule left_join_preserves)
     apply (rule left_join_preserves)
      apply (rule left_join_preserves)
       apply (rule left_join_preserves)
        apply (rule left_join_preserves)
         apply (rule left_join_establishes)
          apply (simp_all add: matched_def holds_on_date)
  done

lemma estimated_matched:
  "\<forall>j \<in> set (from_clause db). matched (date_tbl db) (o_estimated_time_delivery (j_o j)) (j_d3 j)"
  unfolding from_clause_def fold_simps comp_def id_apply
  apply (rule left_join_preserves)
   apply (rule left_join_preserves)
    apply (rule left_join_preserves)
     apply (rule left_join_preserves)
      apply (rule left_join_preserves)
       apply (rule left_join_establishes)
        apply (simp_all add: matched_def holds_on_date)
  done

lemma matched_in_calendar:
  "matched (date_tbl db) t v \<Longrightarrow> in_calendar db t \<longleftrightarrow> v \<noteq> None"
  by (cases v) (auto simp: matched_def in_calendar_def)

lemma matched_Date: "matched tbl t (Some d) \<Longrightarrow> Date d = the (DATE t)"
  by (simp add: matched_def)

lemma delay_of_select:
  "DeliveryDelayDays (select_fact j) =
     (case (j_d2 j, j_d3 j) of
        (Some a, Some b) \<Rightarrow> Some (max 0 (Date a - Date b))
      | other \<Rightarrow> None)"
  by (cases "j_d2 j"; cases "j_d3 j")
     (auto simp: select_fact_def DATEDIFF_def sql_less_def case_when_def holds_def)

lemma late_flag_of_select:
  "DeliveryDelayCheck (select_fact j) =
     (case (DeliveredDateKey (select_fact j), EstimatedDeliveryDateKey (select_fact j)) of
        (Some a, Some b) \<Rightarrow> if b < a then ''TRUE'' else ''FALSE''
      | other \<Rightarrow> ''FALSE'')"
  by (cases "j_d2 j"; cases "j_d3 j")
     (auto simp: select_fact_def sql_less_def case_when_def holds_def)

text \<open>
  Claim C5, as the code has it: for every row the query joins, DeliveryDelayDays is
  the delivered day minus the estimated delivery day, with a negative difference
  raised to 0, when the date table has a row for each of the two days; it is
  \<^verbatim>\<open>NULL\<close> when the order has no delivered date or no estimated delivery date, or
  the date table lacks one of the two days.
\<close>

theorem delay_days_clamped_or_null:
  assumes "j \<in> set (from_clause db)"
  shows "DeliveryDelayDays (select_fact j) =
           (if in_calendar db (o_delivered_date (j_o j)) \<and>
               in_calendar db (o_estimated_time_delivery (j_o j))
            then Some (max 0 (the (DATE (o_delivered_date (j_o j))) -
                              the (DATE (o_estimated_time_delivery (j_o j)))))
            else None)"
proof -
  from delivered_matched assms
  have m2: "matched (date_tbl db) (o_delivered_date (j_o j)) (j_d2 j)" by blast
  from estimated_matched assms
  have m3: "matched (date_tbl db) (o_estimated_time_delivery (j_o j)) (j_d3 j)" by blast
  show ?thesis
  proof (cases "j_d2 j")
    case None
    with matched_in_calendar[OF m2] show ?thesis by (simp add: delay_of_select)
  next
    case a: (Some a)
    show ?thesis
    proof (cases "j_d3 j")
      case None
      with matched_in_calendar[OF m3] a show ?thesis by (simp add: delay_of_select)
    next
      case (Some b)
      with a m2 m3 matched_in_calendar[OF m2] matched_in_calendar[OF m3]
      show ?thesis by (simp add: delay_of_select matched_Date)
    qed
  qed
qed

text \<open>
  Claim C8: in every row of the fact table, DeliveryDelayCheck is \<^verbatim>\<open>'TRUE'\<close> when
  both date keys are present and the delivered date key is greater than the
  estimated delivery date key, and \<^verbatim>\<open>'FALSE'\<close> otherwise, so also when one of
  the two keys is \<^verbatim>\<open>NULL\<close>.
\<close>

theorem late_flag_by_date_keys:
  assumes "r \<in> set (insert_into_fact_order_items db)"
  shows "DeliveryDelayCheck r =
           (case (DeliveredDateKey r, EstimatedDeliveryDateKey r) of
              (Some a, Some b) \<Rightarrow> if b < a then ''TRUE'' else ''FALSE''
            | other \<Rightarrow> ''FALSE'')"
proof -
  from assms obtain j where "r = select_fact j"
    by (auto simp: insert_into_fact_order_items_def)
  then show ?thesis by (simp only: late_flag_of_select)
qed

theorem delay_days_clamped_or_null_witness:
  "length (from_clause database_example) = 3 \<and>
   DeliveryDelayDays (select_fact (from_clause database_example ! 0)) = Some 2 \<and>
   DeliveryDelayDays (select_fact (from_clause database_example ! 1)) = None \<and>
   DeliveryDelayDays (select_fact (from_clause database_example ! 2)) = Some 0"
proof -
  have l: "length (from_clause database_example) = 3" by code_simp
  then have m: "from_clause database_example ! 0 \<in> set (from_clause database_example)"
    "from_clause database_example ! 1 \<in> set (from_clause database_example)"
    "from_clause database_example ! 2 \<in> set (from_clause database_example)"
    by simp_all
  have e0: "(if in_calendar database_example (o_delivered_date (j_o (from_clause database_example ! 0))) \<and>
               in_calendar database_example (o_estimated_time_delivery (j_o (from_clause database_example ! 0)))
            then Some (max 0 (the (DATE (o_delivered_date (j_o (from_clause database_example ! 0)))) -
                              the (DATE (o_estimated_time_delivery (j_o (from_clause database_example ! 0))))))
            else None) = Some 2"
    by code_simp
  have e1: "(if in_calendar database_example (o_delivered_date (j_o (from_clause database_example ! 1))) \<and>
               in_calendar database_example (o_estimated_time_delivery (j_o (from_clause database_example ! 1)))
            then Some (max 0 (the (DATE (o_delivered_date (j_o (from_clause database_example ! 1)))) -
                              the (DATE (o_estimated_time_delivery (j_o (from_clause database_example ! 1))))))
            else None) = None"
    by code_simp
  have e2: "(if in_calendar database_example (o_delivered_date (j_o (from_clause database_example ! 2))) \<and>
               in_calendar database_example (o_estimated_time_delivery (j_o (from_clause database_example ! 2)))
            then Some (max 0 (the (DATE (o_delivered_date (j_o (from_clause database_example ! 2)))) -
                              the (DATE (o_estimated_time_delivery (j_o (from_clause database_example ! 2))))))
            else None) = Some 0"
    by code_simp
  from delay_days_clamped_or_null[OF m(1)] e0
  have a: "DeliveryDelayDays (select_fact (from_clause database_example ! 0)) = Some 2" by (rule trans)
  from delay_days_clamped_or_null[OF m(2)] e1
  have b: "DeliveryDelayDays (select_fact (from_clause database_example ! 1)) = None" by (rule trans)
  from delay_days_clamped_or_null[OF m(3)] e2
  have c: "DeliveryDelayDays (select_fact (from_clause database_example ! 2)) = Some 0" by (rule trans)
  from l a b c show ?thesis by (intro conjI)
qed

theorem delay_days_null_counterexample:
  "map DeliveryDelayDays (insert_into_fact_order_items database_example) = [Some 2, None, Some 0] \<and>
   map DeliveredDateKey (insert_into_fact_order_items database_example) = [Some 20171127, None, Some 20171124]"
  by code_simp

theorem late_flag_by_date_keys_witness:
  "map DeliveredDateKey (insert_into_fact_order_items database_example) = [Some 20171127, None, Some 20171124] \<and>
   map EstimatedDeliveryDateKey (insert_into_fact_order_items database_example)
     = [Some 20171125, Some 20171125, Some 20171127] \<and>
   DeliveryDelayCheck (insert_into_fact_order_items database_example ! 0) = ''TRUE'' \<and>
   DeliveryDelayCheck (insert_into_fact_order_items database_example ! 1) = ''FALSE'' \<and>
   DeliveryDelayCheck (insert_into_fact_order_items database_example ! 2) = ''FALSE''"
proof -
  let ?f = "insert_into_fact_order_items database_example"
  have d: "map DeliveredDateKey ?f = [Some 20171127, None, Some 20171124]" by code_simp
  have e: "map EstimatedDeliveryDateKey ?f = [Some 20171125, Some 20171125, Some 20171127]" by code_simp
  from d have l: "length ?f = 3" by (metis length_map length_Cons list.size(3) numeral_3_eq_3)
  then have m: "?f ! 0 \<in> set ?f" "?f ! 1 \<in> set ?f" "?f ! 2 \<in> set ?f" by simp_all
  from d l have d': "DeliveredDateKey (?f ! 0) = Some 20171127" "DeliveredDateKey (?f ! 1) = None"
    "DeliveredDateKey (?f ! 2) = Some 20171124"
    by (metis nth_map zero_less_numeral nth_Cons_0,
        metis nth_map one_less_numeral_iff semiring_norm(77) nth_Cons_0 nth_Cons_Suc One_nat_def,
        metis nth_map nth_Cons_0 nth_Cons_Suc numeral_2_eq_2 lessI numeral_3_eq_3)
  from e l have e': "EstimatedDeliveryDateKey (?f ! 0) = Some 20171125"
    "EstimatedDeliveryDateKey (?f ! 1) = Some 20171125" "EstimatedDeliveryDateKey (?f ! 2) = Some 20171127"
    by (metis nth_map zero_less_numeral nth_Cons_0,
        metis nth_map one_less_numeral_iff semiring_norm(77) nth_Cons_0 nth_Cons_Suc One_nat_def,
        metis nth_map nth_Cons_0 nth_Cons_Suc numeral_2_eq_2 lessI numeral_3_eq_3)
  from late_flag_by_date_keys[OF m(1)] d'(1) e'(1) have a: "DeliveryDelayCheck (?f ! 0) = ''TRUE''" by simp
  from late_flag_by_date_keys[OF m(2)] d'(2) e'(2) have b: "DeliveryDelayCheck (?f ! 1) = ''FALSE''" by simp
  from late_flag_by_date_keys[OF m(3)] d'(3) e'(3) have c: "DeliveryDelayCheck (?f ! 2) = ''FALSE''" by simp
  from d e a b c show ?thesis by (intro conjI)
qed

section \<open>Order lines: when the transform returns a table\<close>

lemma foldr_max_const:
  "xs \<noteq> [] \<Longrightarrow> \<forall>x \<in> set xs. x = n \<Longrightarrow> foldr max xs 0 = (n::nat)"
proof (induction xs)
  case Nil
  then show ?case by simp
next
  case (Cons a xs)
  show ?case
  proof (cases "xs = []")
    case True
    with Cons.prems show ?thesis by simp
  next
    case False
    with Cons have "foldr max xs 0 = n" by simp
    with Cons.prems show ?thesis by simp
  qed
qed

lemma split_pair_plain:
  assumes "CHR ''-'' \<notin> set p" "CHR ''-'' \<notin> set s"
  shows "py_split ''-'' (p @ ''-'' @ s) = [p, s]"
  using split_from_sep[OF assms(1), of "[]" "[]" s] split_from_no_sep[OF assms(2), of "[]" "[]"]
  by (simp add: py_split_def)

lemma transform_order_item_table_returns:
  assumes some: "\<exists>r \<in> set df. order_id r \<noteq> None"
    and plain: "\<forall>r \<in> set df. CHR ''-'' \<notin> set (the (astype_text (item_product_id r))) \<and>
                              CHR ''-'' \<notin> set (the (astype_text (item_seller_id r)))"
  shows "\<exists>out. transform_order_item_table df = Inr out"
proof -
  let ?keys = "group_keys (map item_key df)"
  from some obtain r k where "r \<in> set df" "item_key r = Some k"
    by (auto simp: item_key_def)
  then have "k \<in> set ?keys" by (force simp: set_group_keys image_iff)
  then have ne: "map (\<lambda>k. length (py_split ''-'' (snd k))) ?keys \<noteq> []" by auto
  have "\<forall>n \<in> set (map (\<lambda>k. length (py_split ''-'' (snd k))) ?keys). n = 2"
  proof
    fix n assume "n \<in> set (map (\<lambda>k. length (py_split ''-'' (snd k))) ?keys)"
    then obtain k where k: "k \<in> set ?keys" "n = length (py_split ''-'' (snd k))" by auto
    from k(1) obtain r where r: "r \<in> set df" "item_key r = Some k" by (auto simp: set_group_keys)
    from r(2) have "snd k = the (astype_text (item_product_id r)) @ ''-'' @ the (astype_text (item_seller_id r))"
      by (auto simp: item_key_def ProductSellerPair_def)
    moreover from plain r(1) have "py_split ''-'' (the (astype_text (item_product_id r)) @ ''-'' @
        the (astype_text (item_seller_id r))) =
        [the (astype_text (item_product_id r)), the (astype_text (item_seller_id r))]"
      by (intro split_pair_plain) blast+
    ultimately show "n = 2" using k(2) by simp
  qed
  from foldr_max_const[OF ne this]
  have "split_width (map (\<lambda>k. py_split ''-'' (snd k)) ?keys) = 2"
    by (simp add: split_width_def comp_def)
  then show ?thesis by (simp add: transform_order_item_table_def Let_def)
qed

end
